theory Spec2Isabelle
  imports Complex_Main
begin

section \<open>JavaScript values, numbers and strings\<close>

text \<open>
  The service is TypeScript on Node.  Values that travel through the generic cache
  (\<open>T\<close> in \<open>cache.get<T>\<close>) are modelled by the JSON-representable part of the JavaScript
  value space, so that \<open>JSON.parse (JSON.stringify v) = v\<close> and the durable tier can hold
  the value itself.  \<open>null\<close> is also what the cache returns for "nothing found".
\<close>

datatype jsval =
    JNull
  | JBool bool
  | JNum int
  | JStr string
  | JArr "jsval list"
  | JObj "(string \<times> jsval) list"

text \<open>ToBoolean: what \<open>if (x)\<close> tests.  Arrays and objects are truthy even when empty.\<close>

fun truthy :: "jsval \<Rightarrow> bool" where
  "truthy JNull = False"
| "truthy (JBool b) = b"
| "truthy (JNum n) = (n \<noteq> 0)"
| "truthy (JStr s) = (s \<noteq> [])"
| "truthy (JArr xs) = True"
| "truthy (JObj kvs) = True"

text \<open>A thrown \<open>Error\<close> with its message.\<close>

datatype error = Error string

definition digitChar :: "nat \<Rightarrow> char" where
  "digitChar d = ''0123456789'' ! (d mod 10)"

text \<open>\<open>String(n)\<close> for a non-negative integer: its decimal digits.\<close>

fun showNat :: "nat \<Rightarrow> string" where
  "showNat n = (if n < 10 then [digitChar n] else showNat (n div 10) @ [digitChar (n mod 10)])"

declare showNat.simps [simp del]

definition showInt :: "int \<Rightarrow> string" where
  "showInt i = (if i < 0 then ''-'' @ showNat (nat (- i)) else showNat (nat i))"

text \<open>\<open>s.padStart(n, c)\<close> with a one-character filler.\<close>

definition padStart :: "nat \<Rightarrow> char \<Rightarrow> string \<Rightarrow> string" where
  "padStart n c s = replicate (n - length s) c @ s"

text \<open>
  \<open>x.toFixed(f)\<close> (ECMA-262, Number.prototype.toFixed) for \<open>\<bar>x\<bar> < 10^21\<close>: the sign is
  split off, the magnitude is scaled by \<open>10^f\<close> and rounded to the nearest integer, the
  larger one on a tie, and the digits are printed with \<open>f\<close> of them after the point.
  JavaScript numbers are modelled by reals: binary rounding of the stored value is not
  represented.
\<close>

definition toFixed :: "nat \<Rightarrow> real \<Rightarrow> string" where
  "toFixed f x =
     (let n = nat \<lfloor>\<bar>x\<bar> * 10 ^ f + 1 / 2\<rfloor>;
          m = showNat n;
          m' = replicate (f + 1 - length m) CHR ''0'' @ m;
          k = length m' - f;
          body = (if f = 0 then m else take k m' @ ''.'' @ drop k m')
      in if x < 0 then ''-'' @ body else body)"


section \<open>Two-level cache (src/cache.ts)\<close>

datatype CacheType = Stations | Forecast

text \<open>\<open>stationId?: number | string\<close>\<close>

datatype StationIdParam = IdNumber int | IdString string

record CacheParams =
  p_stationId :: "StationIdParam option"
  p_from :: "string option"
  p_to :: "string option"

record CacheEntry =
  data :: jsval
  timestamp :: int

text \<open>
  What a file of the cache directory holds: the JSON text of an entry, or text that
  \<open>JSON.parse\<close> rejects.  A key without a file makes \<open>fs.readFile\<close> throw.
\<close>

datatype FileContent = JsonEntry CacheEntry | Unparseable

text \<open>
  The module-level \<open>memoryCache\<close> map and the files of \<open>CACHE_DIR\<close>, one per key
  (\<open>getCacheFilePath\<close>).  Writes and unlinks on the directory are taken to succeed.
\<close>

record CacheState =
  memoryCache :: "string \<rightharpoonup> CacheEntry"
  cacheDir :: "string \<rightharpoonup> FileContent"

text \<open>
  The caller-supplied \<open>fetcher\<close> is an effectful closure: it acts on some outside world
  \<open>'w\<close> and either throws or returns a value.
\<close>

record 'w CacheOptions =
  fetcher :: "('w \<Rightarrow> (error + jsval) \<times> 'w) option"
  duration :: "int option"

definition CACHE_DURATIONS :: "CacheType \<Rightarrow> int" where
  "CACHE_DURATIONS t = (case t of Stations \<Rightarrow> 48 * 60 * 60 * 1000 | Forecast \<Rightarrow> 24 * 60 * 60 * 1000)"

text \<open>
  Template-literal interpolation \<open>${x}\<close> of an optional parameter.  A numeric station
  id is taken to be an integer of magnitude below \<open>10^21\<close>, which \<open>String(n)\<close> prints in
  decimal digits; larger numbers, which print in exponent form, and fractions are
  outside the model.
\<close>

definition tplId :: "StationIdParam option \<Rightarrow> string" where
  "tplId x = (case x of None \<Rightarrow> ''undefined'' | Some (IdNumber n) \<Rightarrow> showInt n | Some (IdString s) \<Rightarrow> s)"

definition tplStr :: "string option \<Rightarrow> string" where
  "tplStr x = (case x of None \<Rightarrow> ''undefined'' | Some s \<Rightarrow> s)"

definition getCacheKey :: "CacheType \<Rightarrow> CacheParams \<Rightarrow> string option" where
  "getCacheKey t params =
     (case t of
        Stations \<Rightarrow> Some ''stations_list''
      | Forecast \<Rightarrow>
          Some (''forecast_'' @ tplId (p_stationId params) @ ''_'' @ tplStr (p_from params)
                @ ''_'' @ tplStr (p_to params)))"

text \<open>\<open>now\<close> is the reading of \<open>Date.now()\<close>; one cache operation sees one reading.\<close>

definition isExpired :: "int \<Rightarrow> int \<Rightarrow> int \<Rightarrow> bool" where
  "isExpired now ts dur = (now - ts > dur)"

definition getFromMemory :: "string \<Rightarrow> int \<Rightarrow> int \<Rightarrow> CacheState \<Rightarrow> jsval \<times> CacheState" where
  "getFromMemory key dur now s =
     (case memoryCache s key of
        None \<Rightarrow> (JNull, s)
      | Some cached \<Rightarrow>
          if isExpired now (timestamp cached) dur
          then (JNull, s\<lparr>memoryCache := (memoryCache s)(key := None)\<rparr>)
          else (data cached, s))"

definition setInMemory :: "string \<Rightarrow> jsval \<Rightarrow> int \<Rightarrow> CacheState \<Rightarrow> CacheState" where
  "setInMemory key d now s =
     s\<lparr>memoryCache := (memoryCache s)(key \<mapsto> \<lparr>data = d, timestamp = now\<rparr>)\<rparr>"

definition getFromFile :: "string \<Rightarrow> int \<Rightarrow> int \<Rightarrow> CacheState \<Rightarrow> jsval \<times> CacheState" where
  "getFromFile key dur now s =
     (case cacheDir s key of
        None \<Rightarrow> (JNull, s)
      | Some Unparseable \<Rightarrow> (JNull, s)
      | Some (JsonEntry cached) \<Rightarrow>
          if isExpired now (timestamp cached) dur
          then (JNull, s\<lparr>cacheDir := (cacheDir s)(key := None)\<rparr>)
          else (data cached, setInMemory key (data cached) now s))"

definition setInFile :: "string \<Rightarrow> jsval \<Rightarrow> int \<Rightarrow> CacheState \<Rightarrow> CacheState" where
  "setInFile key d now s =
     s\<lparr>cacheDir := (cacheDir s)(key \<mapsto> JsonEntry \<lparr>data = d, timestamp = now\<rparr>)\<rparr>"

text \<open>\<open>options.duration || CACHE_DURATIONS[type]\<close>: a missing or zero override is ignored.\<close>

definition effectiveDuration :: "CacheType \<Rightarrow> 'w CacheOptions \<Rightarrow> int" where
  "effectiveDuration t options =
     (case duration options of
        None \<Rightarrow> CACHE_DURATIONS t
      | Some d \<Rightarrow> if d \<noteq> 0 then d else CACHE_DURATIONS t)"

text \<open>
  \<open>cache.get\<close>.  The result is the value the promise resolves to (\<open>Inr\<close>) or the error it
  rejects with (\<open>Inl\<close>), the cache afterwards, and the fetcher's world afterwards.
\<close>

definition get ::
  "CacheType \<Rightarrow> CacheParams \<Rightarrow> 'w CacheOptions \<Rightarrow> int \<Rightarrow> CacheState \<Rightarrow> 'w
     \<Rightarrow> (error + jsval) \<times> CacheState \<times> 'w" where
  "get t params options now s w =
     (case getCacheKey t params of
        None \<Rightarrow> (Inr JNull, s, w)
      | Some key \<Rightarrow>
          let dur = effectiveDuration t options;
              (memoryData, s1) = getFromMemory key dur now s
          in if truthy memoryData then (Inr memoryData, s1, w)
             else
               let (fileData, s2) = getFromFile key dur now s1
               in if truthy fileData then (Inr fileData, s2, w)
                  else
                    (case fetcher options of
                       None \<Rightarrow> (Inr JNull, s2, w)
                     | Some f \<Rightarrow>
                         (case f w of
                            (Inl e, w') \<Rightarrow> (Inl e, s2, w')
                          | (Inr d, w') \<Rightarrow>
                              (Inr d, setInFile key d now (setInMemory key d now s2), w'))))"

text \<open>\<open>cache.set\<close>\<close>

definition set' :: "CacheType \<Rightarrow> jsval \<Rightarrow> CacheParams \<Rightarrow> int \<Rightarrow> CacheState \<Rightarrow> CacheState" where
  "set' t d params now s =
     (case getCacheKey t params of
        None \<Rightarrow> s
      | Some key \<Rightarrow> setInFile key d now (setInMemory key d now s))"



section \<open>Dates (the \<open>Date\<close> built-in)\<close>

text \<open>
  A \<open>Date\<close> is its time value: milliseconds since 1970-01-01T00:00:00Z.  Relational
  operators on dates compare time values.  The local-time getters read the time value
  shifted by the offset \<open>tza\<close> of the server's time zone in force at that instant
  (milliseconds, a parameter of the model); the UTC getters read it unshifted.
\<close>

definition msPerDay :: int where
  "msPerDay = 1000 * 60 * 60 * 24"

definition msPerHour :: int where
  "msPerHour = 1000 * 60 * 60"

text \<open>Year, month (1 to 12) and day of month of a day number in the Gregorian calendar.\<close>

definition civilFromDays :: "int \<Rightarrow> int \<times> int \<times> int" where
  "civilFromDays n =
     (let z = n + 719468;
          era = z div 146097;
          doe = z - era * 146097;
          yoe = (doe - doe div 1460 + doe div 36524 - doe div 146096) div 365;
          doy = doe - (365 * yoe + yoe div 4 - yoe div 100);
          mp = (5 * doy + 2) div 153;
          d = doy - (153 * mp + 2) div 5 + 1;
          m = (if mp < 10 then mp + 3 else mp - 9);
          y = yoe + era * 400
      in (if m \<le> 2 then y + 1 else y, m, d))"

definition getFullYear :: "(int \<Rightarrow> int) \<Rightarrow> int \<Rightarrow> int" where
  "getFullYear tza t = fst (civilFromDays ((t + tza t) div msPerDay))"

text \<open>Months count from 0, as in JavaScript.\<close>

definition getMonth :: "(int \<Rightarrow> int) \<Rightarrow> int \<Rightarrow> int" where
  "getMonth tza t = fst (snd (civilFromDays ((t + tza t) div msPerDay))) - 1"

definition getDate :: "(int \<Rightarrow> int) \<Rightarrow> int \<Rightarrow> int" where
  "getDate tza t = snd (snd (civilFromDays ((t + tza t) div msPerDay)))"

definition getHours :: "(int \<Rightarrow> int) \<Rightarrow> int \<Rightarrow> int" where
  "getHours tza t = ((t + tza t) div msPerHour) mod 24"

definition utc :: "int \<Rightarrow> int" where
  "utc t = 0"

text \<open>
  \<open>d.toISOString().split('T')[0]\<close>: the UTC calendar date, \<open>YYYY-MM-DD\<close> for the years
  0 to 9999 and with a sign and six digits of year outside them.
\<close>

definition isoDate :: "int \<Rightarrow> string" where
  "isoDate t =
     (let y = getFullYear utc t;
          year = (if 0 \<le> y \<and> y \<le> 9999 then padStart 4 CHR ''0'' (showInt y)
                  else (if y < 0 then ''-'' else ''+'') @ padStart 6 CHR ''0'' (showInt \<bar>y\<bar>))
      in year @ ''-'' @ padStart 2 CHR ''0'' (showInt (getMonth utc t + 1))
           @ ''-'' @ padStart 2 CHR ''0'' (showInt (getDate utc t)))"


section \<open>Station observations (src/imsApi.ts)\<close>

text \<open>
  \<open>ChannelValue\<close>: the fields \<open>value\<close>, \<open>status\<close>, \<open>valid\<close>.  \<open>DataReading\<close>: its
  \<open>datetime\<close> is held as the time value of \<open>new Date(reading.datetime)\<close> (a string that
  \<open>Date\<close> cannot parse is outside the model); a missing \<open>channels\<close> array is the empty
  list.  The optional fields mirror the null tests of the aggregation functions.
\<close>

record ChannelValue =
  cv_value :: real
  cv_status :: string
  cv_valid :: bool

record DataReading =
  datetime :: int
  channels :: "ChannelValue list"

record StationDataResponse =
  sd_stationId :: int
  sd_channelId :: int
  sd_data :: "DataReading list option"

record ChannelDataItem =
  channelId :: int
  ci_data :: "StationDataResponse option"


section \<open>Aggregation (src/utils.ts)\<close>

record HourlyForecast =
  hf_time :: string
  hf_temp :: "string option"
  hf_humidity :: "string option"
  hf_windSpeed :: "string option"
  hf_windDir :: "string option"
  hf_rain :: "string option"

record DailyForecast =
  df_date :: string
  df_tempMin :: "string option"
  df_tempMax :: "string option"
  df_tempCurrent :: "string option"
  df_humidity :: "string option"
  df_windSpeed :: "string option"
  df_rain :: "string option"

record HourlyDataAccumulator =
  ha_time :: string
  ha_temp :: "real list"
  ha_humidity :: "real list"
  ha_windSpeed :: "real list"
  ha_windDir :: "real list"
  ha_rain :: "real list"

record DailyDataAccumulator =
  da_date :: string
  da_temps :: "real list"
  da_lastTemp :: "real option"
  da_lastTempTime :: "int option"
  da_humidity :: "real list"
  da_windSpeed :: "real list"
  da_rain :: "real list"

text \<open>
  \<open>Record<string, Accumulator>\<close>: an object used as a dictionary.  \<open>Object.values\<close>
  lists it in insertion order (the keys are not array indices), so it is an association
  list that grows at the end.  \<open>ensureKey\<close> is \<open>if (!dict[key]) dict[key] = init\<close> and
  \<open>updateKey\<close> is a mutation of \<open>dict[key]\<close>.
\<close>

definition ensureKey :: "string \<Rightarrow> 'a \<Rightarrow> (string \<times> 'a) list \<Rightarrow> (string \<times> 'a) list" where
  "ensureKey k init m = (if map_of m k = None then m @ [(k, init)] else m)"

definition updateKey :: "string \<Rightarrow> ('a \<Rightarrow> 'a) \<Rightarrow> (string \<times> 'a) list \<Rightarrow> (string \<times> 'a) list" where
  "updateKey k f m = map (\<lambda>(k', a). if k' = k then (k', f a) else (k', a)) m"

text \<open>\<open>if (!channel.data || !channel.data.data) return;\<close>\<close>

definition readingsOf :: "ChannelDataItem \<Rightarrow> DataReading list" where
  "readingsOf channel =
     (case ci_data channel of
        None \<Rightarrow> []
      | Some r \<Rightarrow> (case sd_data r of None \<Rightarrow> [] | Some rs \<Rightarrow> rs))"

text \<open>
  \<open>a.localeCompare(b)\<close> on the keys built below (digits, \<open>-\<close>, space and \<open>:\<close>), taken as
  the comparison by character code.
\<close>

fun strLess :: "string \<Rightarrow> string \<Rightarrow> bool" where
  "strLess [] [] = False"
| "strLess [] (b # bs) = True"
| "strLess (a # as) [] = False"
| "strLess (a # as) (b # bs) =
     ((of_char a :: nat) < of_char b \<or> ((of_char a :: nat) = of_char b \<and> strLess as bs))"

definition localeCompare :: "string \<Rightarrow> string \<Rightarrow> int" where
  "localeCompare a b = (if a = b then 0 else if strLess a b then - 1 else 1)"

text \<open>\<open>Array.prototype.sort\<close> with a comparator: a stable sort.\<close>

fun insertBy :: "('a \<Rightarrow> 'a \<Rightarrow> int) \<Rightarrow> 'a \<Rightarrow> 'a list \<Rightarrow> 'a list" where
  "insertBy cmp x [] = [x]"
| "insertBy cmp x (y # ys) = (if cmp x y \<le> 0 then x # y # ys else y # insertBy cmp x ys)"

definition sortBy :: "('a \<Rightarrow> 'a \<Rightarrow> int) \<Rightarrow> 'a list \<Rightarrow> 'a list" where
  "sortBy cmp xs = foldr (insertBy cmp) xs []"

definition pad2 :: "int \<Rightarrow> string" where
  "pad2 n = padStart 2 CHR ''0'' (showInt n)"

definition hourKey :: "(int \<Rightarrow> int) \<Rightarrow> int \<Rightarrow> string" where
  "hourKey tza t =
     showInt (getFullYear tza t) @ ''-'' @ pad2 (getMonth tza t + 1) @ ''-'' @ pad2 (getDate tza t)
       @ '' '' @ pad2 (getHours tza t) @ '':00''"

definition dayKey :: "(int \<Rightarrow> int) \<Rightarrow> int \<Rightarrow> string" where
  "dayKey tza t =
     showInt (getFullYear tza t) @ ''-'' @ pad2 (getMonth tza t + 1) @ ''-'' @ pad2 (getDate tza t)"

definition newHourly :: "string \<Rightarrow> HourlyDataAccumulator" where
  "newHourly k = \<lparr>ha_time = k, ha_temp = [], ha_humidity = [], ha_windSpeed = [],
                  ha_windDir = [], ha_rain = []\<rparr>"

text \<open>The body of \<open>if (reading.channels && reading.channels[0]) { switch (channel.channelId) ... }\<close>.\<close>

definition addHourly :: "int \<Rightarrow> DataReading \<Rightarrow> HourlyDataAccumulator \<Rightarrow> HourlyDataAccumulator" where
  "addHourly cid reading a =
     (case channels reading of
        [] \<Rightarrow> a
      | c # cs \<Rightarrow>
          if cid = 7 then a\<lparr>ha_temp := ha_temp a @ [cv_value c]\<rparr>
          else if cid = 8 then a\<lparr>ha_humidity := ha_humidity a @ [cv_value c]\<rparr>
          else if cid = 4 then a\<lparr>ha_windSpeed := ha_windSpeed a @ [cv_value c]\<rparr>
          else if cid = 5 then a\<lparr>ha_windDir := ha_windDir a @ [cv_value c]\<rparr>
          else if cid = 1 then a\<lparr>ha_rain := ha_rain a @ [cv_value c]\<rparr>
          else a)"

definition hourlyStep ::
  "(int \<Rightarrow> int) \<Rightarrow> int \<Rightarrow> (string \<times> HourlyDataAccumulator) list \<Rightarrow> DataReading
     \<Rightarrow> (string \<times> HourlyDataAccumulator) list" where
  "hourlyStep tza cid hourlyData reading =
     (let k = hourKey tza (datetime reading)
      in updateKey k (addHourly cid reading) (ensureKey k (newHourly k) hourlyData))"

text \<open>
  \<open>xs.reduce((a, b) => a + b, 0) / xs.length\<close>, in exact real arithmetic.  The source
  computes in IEEE doubles, so for a mean that falls on a rounding boundary of
  \<open>toFixed(1)\<close> (readings 14.4 and 14.5) the printed digit of the source may differ from
  the one computed here.
\<close>

definition average :: "real list \<Rightarrow> real" where
  "average xs = foldl (+) 0 xs / real (length xs)"

definition finishHourly :: "HourlyDataAccumulator \<Rightarrow> HourlyForecast" where
  "finishHourly hour =
     \<lparr>hf_time = ha_time hour,
      hf_temp = (if ha_temp hour \<noteq> [] then Some (toFixed 1 (average (ha_temp hour))) else None),
      hf_humidity =
        (if ha_humidity hour \<noteq> [] then Some (toFixed 0 (average (ha_humidity hour))) else None),
      hf_windSpeed =
        (if ha_windSpeed hour \<noteq> [] then Some (toFixed 1 (average (ha_windSpeed hour))) else None),
      hf_windDir =
        (if ha_windDir hour \<noteq> [] then Some (toFixed 0 (average (ha_windDir hour))) else None),
      hf_rain = (if ha_rain hour \<noteq> [] then Some (toFixed 1 (foldl (+) 0 (ha_rain hour))) else None)\<rparr>"

definition aggregateHourly :: "(int \<Rightarrow> int) \<Rightarrow> ChannelDataItem list \<Rightarrow> HourlyForecast list" where
  "aggregateHourly tza chans =
     sortBy (\<lambda>a b. localeCompare (hf_time a) (hf_time b))
       (map (finishHourly \<circ> snd)
          (foldl (\<lambda>hourlyData channel.
                    foldl (hourlyStep tza (channelId channel)) hourlyData (readingsOf channel))
             [] chans))"

definition newDaily :: "string \<Rightarrow> DailyDataAccumulator" where
  "newDaily k = \<lparr>da_date = k, da_temps = [], da_lastTemp = None, da_lastTempTime = None,
                 da_humidity = [], da_windSpeed = [], da_rain = []\<rparr>"

text \<open>
  The temperature case: push the value, then
  \<open>if (!lastTempTime || readingTime > lastTempTime) { lastTemp = value; lastTempTime = readingTime; }\<close>
\<close>

definition addTemp :: "real \<Rightarrow> int \<Rightarrow> DailyDataAccumulator \<Rightarrow> DailyDataAccumulator" where
  "addTemp v readingTime a =
     (let a1 = a\<lparr>da_temps := da_temps a @ [v]\<rparr>
      in case da_lastTempTime a1 of
           None \<Rightarrow> a1\<lparr>da_lastTemp := Some v, da_lastTempTime := Some readingTime\<rparr>
         | Some lt \<Rightarrow>
             if readingTime > lt
             then a1\<lparr>da_lastTemp := Some v, da_lastTempTime := Some readingTime\<rparr>
             else a1)"

definition addDaily :: "int \<Rightarrow> DataReading \<Rightarrow> DailyDataAccumulator \<Rightarrow> DailyDataAccumulator" where
  "addDaily cid reading a =
     (case channels reading of
        [] \<Rightarrow> a
      | c # cs \<Rightarrow>
          if cid = 7 then addTemp (cv_value c) (datetime reading) a
          else if cid = 8 then a\<lparr>da_humidity := da_humidity a @ [cv_value c]\<rparr>
          else if cid = 4 then a\<lparr>da_windSpeed := da_windSpeed a @ [cv_value c]\<rparr>
          else if cid = 1 then a\<lparr>da_rain := da_rain a @ [cv_value c]\<rparr>
          else a)"

definition dailyStep ::
  "(int \<Rightarrow> int) \<Rightarrow> int \<Rightarrow> (string \<times> DailyDataAccumulator) list \<Rightarrow> DataReading
     \<Rightarrow> (string \<times> DailyDataAccumulator) list" where
  "dailyStep tza cid dailyData reading =
     (let k = dayKey tza (datetime reading)
      in updateKey k (addDaily cid reading) (ensureKey k (newDaily k) dailyData))"

text \<open>\<open>Math.min(...xs)\<close> and \<open>Math.max(...xs)\<close>; of no arguments they are infinite (\<open>None\<close>).\<close>

definition mathMin :: "real list \<Rightarrow> real option" where
  "mathMin xs = (case xs of [] \<Rightarrow> None | x # rest \<Rightarrow> Some (foldl min x rest))"

definition mathMax :: "real list \<Rightarrow> real option" where
  "mathMax xs = (case xs of [] \<Rightarrow> None | x # rest \<Rightarrow> Some (foldl max x rest))"

definition finishDaily :: "DailyDataAccumulator \<Rightarrow> DailyForecast" where
  "finishDaily day =
     \<lparr>df_date = da_date day,
      df_tempMin = (if da_temps day \<noteq> [] then map_option (toFixed 1) (mathMin (da_temps day)) else None),
      df_tempMax = (if da_temps day \<noteq> [] then map_option (toFixed 1) (mathMax (da_temps day)) else None),
      df_tempCurrent = (case da_lastTemp day of None \<Rightarrow> None | Some v \<Rightarrow> Some (toFixed 1 v)),
      df_humidity =
        (if da_humidity day \<noteq> [] then Some (toFixed 0 (average (da_humidity day))) else None),
      df_windSpeed =
        (if da_windSpeed day \<noteq> [] then Some (toFixed 1 (average (da_windSpeed day))) else None),
      df_rain = (if da_rain day \<noteq> [] then Some (toFixed 1 (foldl (+) 0 (da_rain day))) else None)\<rparr>"

definition aggregateDaily :: "(int \<Rightarrow> int) \<Rightarrow> ChannelDataItem list \<Rightarrow> DailyForecast list" where
  "aggregateDaily tza chans =
     sortBy (\<lambda>a b. localeCompare (df_date a) (df_date b))
       (map (finishDaily \<circ> snd)
          (foldl (\<lambda>dailyData channel.
                    foldl (dailyStep tza (channelId channel)) dailyData (readingsOf channel))
             [] chans))"

subsection \<open>Notions the statements about aggregation are phrased in\<close>

text \<open>Every reading of the input with the id of its channel, in the order the loops visit them.\<close>

definition allReadings :: "ChannelDataItem list \<Rightarrow> (int \<times> DataReading) list" where
  "allReadings chans = concat (map (\<lambda>ch. map (Pair (channelId ch)) (readingsOf ch)) chans)"

text \<open>
  The temperature readings of one day bucket: time value and value of every reading of
  channel 7 that carries a channel value and whose day key is \<open>day\<close>.
\<close>

definition temperatureReadings ::
  "(int \<Rightarrow> int) \<Rightarrow> ChannelDataItem list \<Rightarrow> string \<Rightarrow> (int \<times> real) list" where
  "temperatureReadings tza chans day =
     map (\<lambda>(cid, r). (datetime r, cv_value (hd (channels r))))
       (filter (\<lambda>(cid, r). cid = 7 \<and> channels r \<noteq> [] \<and> dayKey tza (datetime r) = day)
          (allReadings chans))"

text \<open>The input with every validity mark reset: \<open>valid = true\<close>, \<open>status = "1"\<close>.\<close>

definition eraseValidityValue :: "ChannelValue \<Rightarrow> ChannelValue" where
  "eraseValidityValue c = c\<lparr>cv_status := ''1'', cv_valid := True\<rparr>"

definition eraseValidityReading :: "DataReading \<Rightarrow> DataReading" where
  "eraseValidityReading r = r\<lparr>channels := map eraseValidityValue (channels r)\<rparr>"

definition eraseValidity :: "ChannelDataItem \<Rightarrow> ChannelDataItem" where
  "eraseValidity ch =
     ch\<lparr>ci_data := map_option
            (\<lambda>resp. resp\<lparr>sd_data := map_option (map eraseValidityReading) (sd_data resp)\<rparr>)
            (ci_data ch)\<rparr>"

text \<open>The day dictionary that \<open>aggregateDaily\<close> has built when its loops end.\<close>

definition dailyBuckets ::
  "(int \<Rightarrow> int) \<Rightarrow> ChannelDataItem list \<Rightarrow> (string \<times> DailyDataAccumulator) list" where
  "dailyBuckets tza chans =
     foldl (\<lambda>dailyData channel.
              foldl (dailyStep tza (channelId channel)) dailyData (readingsOf channel)) [] chans"

text \<open>The rule that tracks the latest temperature, on pairs of last value and last time.\<close>

fun track :: "real option \<times> int option \<Rightarrow> int \<times> real \<Rightarrow> real option \<times> int option" where
  "track (lv, None) (t, v) = (Some v, Some t)"
| "track (lv, Some l) (t, v) = (if t > l then (Some v, Some t) else (lv, Some l))"

text \<open>Time value and value of the temperature readings among some readings.\<close>

definition tempsOf :: "(int \<times> DataReading) list \<Rightarrow> (int \<times> real) list" where
  "tempsOf xs = map (\<lambda>(cid, r). (datetime r, cv_value (hd (channels r))))
                  (filter (\<lambda>(cid, r). cid = 7 \<and> channels r \<noteq> []) xs)"

section \<open>Date ranges (src/utils.ts)\<close>

text \<open>
  A date string \<open>YYYY-MM-DD\<close> is held as the number of its day (days since 1970-01-01):
  \<open>new Date(s)\<close> is the time value \<open>s * msPerDay\<close> and \<open>isoDate\<close> of that time value prints
  the string.  \<open>today\<close> is the day of \<open>new Date()\<close> in UTC, and
  \<open>d.setUTCDate(today.getUTCDate() - n)\<close> on a copy \<open>d\<close> of today moves it \<open>n\<close> days back.
\<close>

record DateRange =
  dr_from :: int
  dr_to :: int

definition getDateRange :: "int \<Rightarrow> string \<Rightarrow> DateRange" where
  "getDateRange today period =
     (let startDate =
        (if period = ''today'' then today - 2
         else if period = ''week'' then today - 7
         else if period = ''month'' then today - 30
         else today - 2)
      in \<lparr>dr_from = startDate, dr_to = today\<rparr>)"

text \<open>
  Modelled from the spec: \<open>getForecastDateRange\<close>, which the forecast route calls, is
  not in the utils.ts at hand.  The spec gives the forward-looking window: today is the
  start, and the period (short, medium, long: \<open>today\<close>, \<open>week\<close>, \<open>month\<close>) spans about 2, 7
  and 30 days.  The window counts today, so the end is 1, 6 and 29 days after the start,
  which are the differences tests/unit/utils.test.js expects and the listing in
  docs/XML_FEED_README.md computes; an unknown period is treated as \<open>today\<close>, as there.
\<close>

definition getForecastDateRange :: "int \<Rightarrow> string \<Rightarrow> DateRange" where
  "getForecastDateRange today period =
     (let endDate =
        (if period = ''today'' then today + 1
         else if period = ''week'' then today + 6
         else if period = ''month'' then today + 29
         else today + 1)
      in \<lparr>dr_from = today, dr_to = endDate\<rparr>)"


section \<open>Synthetic forecasts (fallbackForecast.ts, src/unnamed/part_011)\<close>

text \<open>
  \<open>Math.random()\<close> is a sequence \<open>rnd\<close> of numbers and a position in it: every call
  reads the next one.  The generators return the position they have reached.
\<close>

text \<open>One pass of the loop of \<open>generateFallbackDailyForecast\<close>: the entry pushed.\<close>

definition fallbackDay :: "real \<Rightarrow> (nat \<Rightarrow> real) \<Rightarrow> int \<Rightarrow> nat \<Rightarrow> nat \<Rightarrow> DailyForecast \<times> nat" where
  "fallbackDay baseTemp rnd currentDate dayIndex i =
     (let dateStr = isoDate currentDate;
          tempVariation = sin (real dayIndex * 0.5) * 3;
          dailyVariation = rnd i * 2 - 1;
          tempMin = toFixed 1 (baseTemp + tempVariation - 3 + dailyVariation);
          tempMax = toFixed 1 (baseTemp + tempVariation + 5 + dailyVariation);
          tempCurrent = toFixed 1 (baseTemp + tempVariation + dailyVariation);
          humidity = toFixed 0 (60 + rnd (i + 1) * 20);
          windSpeed = toFixed 1 (2 + rnd (i + 2) * 5);
          wet = (rnd (i + 3) < 0.2);
          rain = (if wet then Some (toFixed 1 (rnd (i + 4) * 5)) else None)
      in (\<lparr>df_date = dateStr, df_tempMin = Some tempMin, df_tempMax = Some tempMax,
           df_tempCurrent = Some tempCurrent, df_humidity = Some humidity,
           df_windSpeed = Some windSpeed, df_rain = rain\<rparr>,
          if wet then i + 5 else i + 4))"

text \<open>
  \<open>while (currentDate <= to) { ...; currentDate.setUTCDate(currentDate.getUTCDate() + 1);
  dayIndex++; }\<close>
\<close>

function fallbackDailyLoop ::
  "int \<Rightarrow> real \<Rightarrow> (nat \<Rightarrow> real) \<Rightarrow> int \<Rightarrow> nat \<Rightarrow> nat \<Rightarrow> DailyForecast list
     \<Rightarrow> DailyForecast list \<times> nat" where
  "fallbackDailyLoop toTime baseTemp rnd currentDate dayIndex i forecasts =
     (if currentDate \<le> toTime
      then fallbackDailyLoop toTime baseTemp rnd (currentDate + msPerDay) (dayIndex + 1)
             (snd (fallbackDay baseTemp rnd currentDate dayIndex i))
             (forecasts @ [fst (fallbackDay baseTemp rnd currentDate dayIndex i)])
      else (forecasts, i))"
  by pat_completeness auto
termination
  by (relation "measure (\<lambda>(toTime, baseTemp, rnd, currentDate, dayIndex, i, forecasts).
                   nat (toTime + 1 - currentDate))")
     (auto simp: msPerDay_def)

declare fallbackDailyLoop.simps [simp del]

definition generateFallbackDailyForecast ::
  "int \<Rightarrow> int \<Rightarrow> real \<Rightarrow> (nat \<Rightarrow> real) \<Rightarrow> nat \<Rightarrow> DailyForecast list \<times> nat" where
  "generateFallbackDailyForecast fromDate toDate baseTemp rnd i =
     fallbackDailyLoop (toDate * msPerDay) baseTemp rnd (fromDate * msPerDay) 0 i []"

definition fallbackHour :: "real \<Rightarrow> (nat \<Rightarrow> real) \<Rightarrow> int \<Rightarrow> nat \<Rightarrow> HourlyForecast \<times> nat" where
  "fallbackHour baseTemp rnd currentHour i =
     (let timeStr = hourKey utc currentHour;
          hourOfDay = getHours utc currentHour;
          dailyTempCurve = sin (real_of_int (hourOfDay - 6) * pi / 12) * 4;
          temp = toFixed 1 (baseTemp + dailyTempCurve + rnd i * 2 - 1);
          humidity = toFixed 0 (70 - dailyTempCurve * 2 + rnd (i + 1) * 10);
          windSpeed = toFixed 1 (3 + rnd (i + 2) * 4);
          windDir = toFixed 0 (rnd (i + 3) * 360);
          wet = (rnd (i + 4) < 0.1);
          rain = (if wet then Some (toFixed 1 (rnd (i + 5) * 2)) else None)
      in (\<lparr>hf_time = timeStr, hf_temp = Some temp, hf_humidity = Some humidity,
           hf_windSpeed = Some windSpeed, hf_windDir = Some windDir, hf_rain = rain\<rparr>,
          if wet then i + 6 else i + 5))"

function fallbackHourlyLoop ::
  "int \<Rightarrow> real \<Rightarrow> (nat \<Rightarrow> real) \<Rightarrow> int \<Rightarrow> nat \<Rightarrow> HourlyForecast list
     \<Rightarrow> HourlyForecast list \<times> nat" where
  "fallbackHourlyLoop toTime baseTemp rnd currentHour i forecasts =
     (if currentHour \<le> toTime
      then fallbackHourlyLoop toTime baseTemp rnd (currentHour + msPerHour)
             (snd (fallbackHour baseTemp rnd currentHour i))
             (forecasts @ [fst (fallbackHour baseTemp rnd currentHour i)])
      else (forecasts, i))"
  by pat_completeness auto
termination
  by (relation "measure (\<lambda>(toTime, baseTemp, rnd, currentHour, i, forecasts).
                   nat (toTime + 1 - currentHour))")
     (auto simp: msPerHour_def)

declare fallbackHourlyLoop.simps [simp del]

text \<open>From \<open>fromDate + 'T00:00:00Z'\<close> to \<open>toDate + 'T23:59:59Z'\<close>.\<close>

definition generateFallbackHourlyForecast ::
  "int \<Rightarrow> int \<Rightarrow> real \<Rightarrow> (nat \<Rightarrow> real) \<Rightarrow> nat \<Rightarrow> HourlyForecast list \<times> nat" where
  "generateFallbackHourlyForecast fromDate toDate baseTemp rnd i =
     fallbackHourlyLoop (toDate * msPerDay + (23 * 3600 + 59 * 60 + 59) * 1000) baseTemp rnd
       (fromDate * msPerDay) i []"

text \<open>\<open>HourlyForecast[] | DailyForecast[]\<close>\<close>

datatype ForecastData = Hourly "HourlyForecast list" | Daily "DailyForecast list"

definition forecastLength :: "ForecastData \<Rightarrow> nat" where
  "forecastLength f = (case f of Hourly hs \<Rightarrow> length hs | Daily ds \<Rightarrow> length ds)"

definition generateFallbackForecast ::
  "string \<Rightarrow> int \<Rightarrow> int \<Rightarrow> real \<Rightarrow> (nat \<Rightarrow> real) \<Rightarrow> nat \<Rightarrow> ForecastData \<times> nat" where
  "generateFallbackForecast period fromDate toDate baseTemp rnd i =
     (if period = ''today''
      then (Hourly (fst (generateFallbackHourlyForecast fromDate toDate baseTemp rnd i)),
            snd (generateFallbackHourlyForecast fromDate toDate baseTemp rnd i))
      else (Daily (fst (generateFallbackDailyForecast fromDate toDate baseTemp rnd i)),
            snd (generateFallbackDailyForecast fromDate toDate baseTemp rnd i)))"


section \<open>Multi-channel fetch (src/imsApi.ts)\<close>

text \<open>
  \<open>getStationData\<close> is the upstream call: for a station, a channel and a date range it
  throws or returns the channel's data.  It is a parameter of the model.  The station
  is the number that \<open>parseInt\<close> made of the query string, \<open>None\<close> when that is \<open>NaN\<close>.
\<close>

type_synonym StationDataFetch =
  "int option \<Rightarrow> int \<Rightarrow> int \<Rightarrow> int \<Rightarrow> error + StationDataResponse"

text \<open>\<open>Promise.all\<close>: rejects when one of the promises rejects, else the list of values.\<close>

fun promiseAll :: "(error + 'a) list \<Rightarrow> error + 'a list" where
  "promiseAll [] = Inr []"
| "promiseAll (Inl e # ps) = Inl e"
| "promiseAll (Inr x # ps) = (case promiseAll ps of Inl e \<Rightarrow> Inl e | Inr xs \<Rightarrow> Inr (x # xs))"

text \<open>The arrow function mapped over \<open>channelIds\<close>: \<open>try { ... } catch (err) { return null; }\<close>.\<close>

definition fetchChannel ::
  "StationDataFetch \<Rightarrow> int option \<Rightarrow> int \<Rightarrow> int \<Rightarrow> int \<Rightarrow> error + ChannelDataItem option" where
  "fetchChannel getStationData stationId fromDate toDate cid =
     (case getStationData stationId cid fromDate toDate of
        Inl err \<Rightarrow> Inr None
      | Inr d \<Rightarrow> Inr (Some \<lparr>channelId = cid, ci_data = Some d\<rparr>))"

definition getStationDataMultiChannel ::
  "StationDataFetch \<Rightarrow> int option \<Rightarrow> int list \<Rightarrow> int \<Rightarrow> int \<Rightarrow> error + ChannelDataItem list" where
  "getStationDataMultiChannel getStationData stationId channelIds fromDate toDate =
     (case promiseAll (map (fetchChannel getStationData stationId fromDate toDate) channelIds) of
        Inl e \<Rightarrow> Inl e
      | Inr results \<Rightarrow> Inr (List.map_filter (\<lambda>r. r) results))"


section \<open>The forecast route (\<open>app.get('/api/forecast')\<close>)\<close>

text \<open>
  The server module, which src/src/imsApi.ts holds from line 143 on.  (src/src/server.ts
  is an earlier copy of the routes, without feed lookup and synthetic fallback.)
\<close>

text \<open>
  A station of the cached list.  Its \<open>location\<close> may be missing (the nearest-station
  route tests \<open>station.location\<close> before it reads the coordinates); the forecast route
  reads \<open>station.location.latitude\<close> untested, which throws a \<open>TypeError\<close> then.
\<close>

record StationLocation =
  latitude :: real
  longitude :: real

record Station =
  st_stationId :: int
  st_name :: string
  st_location :: "StationLocation option"

record City =
  city_id :: string
  city_name :: string

record ParsedForecast =
  pf_title :: string
  pf_description :: string
  pf_pubDate :: string

text \<open>\<open>ExtractedForecastData\<close> (src/forecastAdapter.ts): what the regular expressions found.\<close>

record ExtractedForecastData =
  ex_temp :: "string option"
  ex_tempMin :: "string option"
  ex_tempMax :: "string option"
  ex_humidity :: "string option"
  ex_windSpeed :: "string option"
  ex_windDir :: "string option"
  ex_rain :: "string option"
  ex_forecastText :: string
  ex_date :: "string option"

text \<open>
  What the route reads from outside itself: the clock (\<open>env_today\<close>, the UTC day of the
  \<open>new Date()\<close> in the date-range utility, and \<open>env_now\<close>, the time value of the
  \<open>new Date()\<close> in the adapter), the server's time zone, the random numbers, \<open>parseInt\<close>,
  the outcome of \<open>cache.get('stations', ...)\<close> (an error, \<open>null\<close> or the stations),
  \<open>findNearestCity\<close>, \<open>getMostRecentDownloadDir()\<close> (throws when the data directory
  cannot be read, else \<open>null\<close> or a path), \<open>getCityForecast\<close> (throws, or returns the
  parsed items of the city's feed file), the regular-expression matching of
  \<open>extractForecastData\<close>, and the upstream \<open>getStationData\<close>.
\<close>

record ForecastEnv =
  env_today :: int
  env_now :: int
  env_tza :: "int \<Rightarrow> int"
  env_random :: "nat \<Rightarrow> real"
  env_parseInt :: "string \<Rightarrow> int option"
  env_stations :: "error + Station list option"
  env_findNearestCity :: "real \<Rightarrow> real \<Rightarrow> City"
  env_downloadDir :: "error + string option"
  env_getCityForecast :: "string \<Rightarrow> string \<Rightarrow> error + ParsedForecast list option"
  env_extractForecastData :: "ParsedForecast \<Rightarrow> ExtractedForecastData"
  env_getStationData :: StationDataFetch

text \<open>The JSON body of a forecast response; the station branch has no city fields.\<close>

record ForecastBody =
  b_source :: string
  b_stationId :: string
  b_cityId :: "string option"
  b_cityName :: "string option"
  b_period :: "string option"
  b_dateRange :: DateRange
  b_forecast :: ForecastData

text \<open>\<open>res.json(body)\<close>, or \<open>res.status(code).json({ error: message })\<close>.\<close>

datatype Response = Json ForecastBody | Failure nat string

text \<open>\<open>period || 'today'\<close>\<close>

definition periodOrToday :: "string option \<Rightarrow> string" where
  "periodOrToday period = (case period of None \<Rightarrow> ''today'' | Some p \<Rightarrow> if p = [] then ''today'' else p)"

text \<open>\<open>x || d\<close> for an optional string \<open>x\<close>: \<open>undefined\<close> and the empty string are falsy.\<close>

definition strOr :: "string option \<Rightarrow> string \<Rightarrow> string" where
  "strOr x d = (case x of None \<Rightarrow> d | Some s \<Rightarrow> if s = [] then d else s)"

text \<open>\<open>s.split('T')[0]\<close>: the part of \<open>s\<close> before its first \<open>T\<close>.\<close>

definition beforeT :: "string \<Rightarrow> string" where
  "beforeT s = takeWhile (\<lambda>c. c \<noteq> CHR ''T'') s"

text \<open>
  \<open>convertToHourlyFormat\<close> (src/forecastAdapter.ts): 48 hourly copies of the first item.
  \<open>hour.toISOString().slice(0, 13).replace('T', ' ') + ':00'\<close> is the UTC date and hour
  (years 0 to 9999).
\<close>

definition hourlyEntry :: "ExtractedForecastData \<Rightarrow> int \<Rightarrow> HourlyForecast" where
  "hourlyEntry extracted hour =
     \<lparr>hf_time = isoDate hour @ '' '' @ pad2 (getHours utc hour) @ '':00'',
      hf_temp = Some (strOr (ex_temp extracted) ''N/A''),
      hf_humidity = Some (strOr (ex_humidity extracted) ''N/A''),
      hf_windSpeed = Some (strOr (ex_windSpeed extracted) ''N/A''),
      hf_windDir = Some (strOr (ex_windDir extracted) ''N/A''),
      hf_rain = Some (strOr (ex_rain extracted) ''0.0'')\<rparr>"

definition convertToHourlyFormat ::
  "ForecastEnv \<Rightarrow> ParsedForecast list \<Rightarrow> string option \<Rightarrow> HourlyForecast list" where
  "convertToHourlyFormat env forecasts period =
     (case forecasts of
        [] \<Rightarrow> []
      | forecast # rest \<Rightarrow>
          if period = Some ''today''
          then map (\<lambda>i. hourlyEntry (env_extractForecastData env forecast)
                            (env_now env + int i * 60 * 60 * 1000)) [0..<48]
          else [])"

text \<open>
  \<open>convertToDailyFormat\<close> (src/forecastAdapter.ts): one row for every item, dated
  \<open>extracted.date || forecast.pubDate.split('T')[0] || new Date().toISOString().split('T')[0]\<close>.
\<close>

definition dailyEntry :: "ForecastEnv \<Rightarrow> ParsedForecast \<Rightarrow> DailyForecast" where
  "dailyEntry env forecast =
     (let extracted = env_extractForecastData env forecast
      in \<lparr>df_date = strOr (ex_date extracted)
                      (strOr (Some (beforeT (pf_pubDate forecast))) (isoDate (env_now env))),
          df_tempMin = Some (strOr (ex_tempMin extracted) (strOr (ex_temp extracted) ''N/A'')),
          df_tempMax = Some (strOr (ex_tempMax extracted) (strOr (ex_temp extracted) ''N/A'')),
          df_tempCurrent = Some (strOr (ex_temp extracted) ''N/A''),
          df_humidity = Some (strOr (ex_humidity extracted) ''N/A''),
          df_windSpeed = Some (strOr (ex_windSpeed extracted) ''N/A''),
          df_rain = Some (strOr (ex_rain extracted) ''0.0'')\<rparr>)"

definition convertToDailyFormat :: "ForecastEnv \<Rightarrow> ParsedForecast list \<Rightarrow> DailyForecast list" where
  "convertToDailyFormat env forecasts = map (dailyEntry env) forecasts"

text \<open>\<open>formatForecastResponse\<close> (src/forecastAdapter.ts)\<close>

definition formatForecastResponse ::
  "ForecastEnv \<Rightarrow> string \<Rightarrow> string \<Rightarrow> string \<Rightarrow> string option \<Rightarrow> DateRange \<Rightarrow> ParsedForecast list
     \<Rightarrow> ForecastBody" where
  "formatForecastResponse env stationId cityId cityName period dateRange forecasts =
     \<lparr>b_source = ''xml'', b_stationId = stationId, b_cityId = Some cityId,
      b_cityName = Some cityName, b_period = period, b_dateRange = dateRange,
      b_forecast =
        (if period = Some ''today'' then Hourly (convertToHourlyFormat env forecasts period)
         else Daily (convertToDailyFormat env forecasts))\<rparr>"

text \<open>\<open>stations?.find(s => s.stationId === parseInt(stationId))\<close>\<close>

definition findStation :: "ForecastEnv \<Rightarrow> Station list option \<Rightarrow> string \<Rightarrow> Station option" where
  "findStation env stations stationId =
     (case stations of
        None \<Rightarrow> None
      | Some sts \<Rightarrow>
          (case env_parseInt env stationId of
             None \<Rightarrow> None
           | Some n \<Rightarrow> find (\<lambda>s. st_stationId s = n) sts))"

text \<open>
  The feed attempt: \<open>const downloadDir = getMostRecentDownloadDir(); if (downloadDir) { try {
  ... if (cityForecasts && cityForecasts.length > 0) return res.json(formatForecastResponse(...))
  } catch { } }\<close>.  \<open>Inr (Some response)\<close> is the response sent, \<open>Inr None\<close> is falling
  through to the station observations, and \<open>Inl\<close> is the error of
  \<open>getMostRecentDownloadDir\<close>, which is called outside the \<open>try\<close>.
\<close>

definition tryXmlForecast ::
  "ForecastEnv \<Rightarrow> string \<Rightarrow> string option \<Rightarrow> DateRange \<Rightarrow> City \<Rightarrow> error + ForecastBody option" where
  "tryXmlForecast env stationId period dateRange nearestCity =
     (case env_downloadDir env of
        Inl err \<Rightarrow> Inl err
      | Inr None \<Rightarrow> Inr None
      | Inr (Some downloadDir) \<Rightarrow>
          (if downloadDir = [] then Inr None
           else
             (case env_getCityForecast env (city_id nearestCity) downloadDir of
                Inl err \<Rightarrow> Inr None
              | Inr None \<Rightarrow> Inr None
              | Inr (Some cityForecasts) \<Rightarrow>
                  (if length cityForecasts > 0
                   then Inr (Some (formatForecastResponse env stationId (city_id nearestCity)
                                     (city_name nearestCity) period dateRange cityForecasts))
                   else Inr None))))"

text \<open>
  \<open>Math.ceil((toDate.getTime() - fromDate.getTime()) / (1000 * 60 * 60 * 24)) + 1\<close>
\<close>

definition expectedDays :: "DateRange \<Rightarrow> int" where
  "expectedDays dateRange =
     \<lceil>real_of_int (dr_to dateRange * msPerDay - dr_from dateRange * msPerDay)
        / real_of_int (1000 * 60 * 60 * 24)\<rceil> + 1"

text \<open>The station branch: aggregate, then replace an insufficient aggregate.\<close>

definition stationForecast ::
  "ForecastEnv \<Rightarrow> string option \<Rightarrow> DateRange \<Rightarrow> ChannelDataItem list \<Rightarrow> ForecastData" where
  "stationForecast env period dateRange chans =
     (let forecast =
            (if period = Some ''today'' then Hourly (aggregateHourly (env_tza env) chans)
             else Daily (aggregateDaily (env_tza env) chans))
      in if period \<noteq> Some ''today''
            \<and> int (forecastLength forecast) < min 3 (expectedDays dateRange)
         then fst (generateFallbackForecast (periodOrToday period) (dr_from dateRange)
                     (dr_to dateRange) 20 (env_random env) 0)
         else forecast)"

definition forecastChannelIds :: "int list" where
  "forecastChannelIds = [1, 2, 3, 4, 5, 6, 7, 8, 9, 10]"

text \<open>
  The part of the route after the station has been found.  Every error thrown in the
  route is caught by its outer \<open>catch\<close> and answered with 500.
\<close>

definition forecastForStation ::
  "ForecastEnv \<Rightarrow> string \<Rightarrow> string option \<Rightarrow> DateRange \<Rightarrow> Station \<Rightarrow> Response" where
  "forecastForStation env stationId period dateRange station =
     (case st_location station of
        None \<Rightarrow> Failure 500 ''Failed to fetch forecast data''
      | Some location \<Rightarrow>
          (case tryXmlForecast env stationId period dateRange
                  (env_findNearestCity env (latitude location) (longitude location)) of
             Inl err \<Rightarrow> Failure 500 ''Failed to fetch forecast data''
           | Inr (Some response) \<Rightarrow> Json response
           | Inr None \<Rightarrow>
               (case getStationDataMultiChannel (env_getStationData env)
                       (env_parseInt env stationId) forecastChannelIds
                       (dr_from dateRange) (dr_to dateRange) of
                  Inl err \<Rightarrow> Failure 500 ''Failed to fetch forecast data''
                | Inr chans \<Rightarrow>
                    Json \<lparr>b_source = ''station'', b_stationId = stationId,
                          b_cityId = None, b_cityName = None, b_period = period,
                          b_dateRange = dateRange,
                          b_forecast = stationForecast env period dateRange chans\<rparr>)))"

definition forecastHandler :: "ForecastEnv \<Rightarrow> string option \<Rightarrow> string option \<Rightarrow> Response" where
  "forecastHandler env stationIdQ period =
     (case stationIdQ of
        None \<Rightarrow> Failure 400 ''Station ID is required''
      | Some stationId \<Rightarrow>
          (if stationId = [] then Failure 400 ''Station ID is required''
           else
             (case env_stations env of
                Inl err \<Rightarrow> Failure 500 ''Failed to fetch forecast data''
              | Inr stations \<Rightarrow>
                  (case findStation env stations stationId of
                     None \<Rightarrow> Failure 404 ''Station not found''
                   | Some station \<Rightarrow>
                       forecastForStation env stationId period
                         (getForecastDateRange (env_today env) (periodOrToday period))
                         station))))"

text \<open>The station-detail route, \<open>app.get('/api/station-detail')\<close>: raw observations.\<close>

record StationDetailBody =
  sdb_stationId :: "int option"
  sdb_dateRange :: DateRange
  sdb_channels :: "ChannelDataItem list"
  sdb_period :: "string option"

datatype DetailResponse = DetailJson StationDetailBody | DetailFailure nat string

definition stationDetailHandler ::
  "ForecastEnv \<Rightarrow> string option \<Rightarrow> string option \<Rightarrow> DetailResponse" where
  "stationDetailHandler env stationIdQ period =
     (case stationIdQ of
        None \<Rightarrow> DetailFailure 400 ''Station ID is required''
      | Some stationId \<Rightarrow>
          (if stationId = [] then DetailFailure 400 ''Station ID is required''
           else
             (let dateRange = getDateRange (env_today env) (periodOrToday period)
              in (case getStationDataMultiChannel (env_getStationData env)
                         (env_parseInt env stationId) forecastChannelIds
                         (dr_from dateRange) (dr_to dateRange) of
                    Inl err \<Rightarrow> DetailFailure 500 ''Failed to fetch station detail''
                  | Inr chans \<Rightarrow>
                      DetailJson \<lparr>sdb_stationId = env_parseInt env stationId,
                                  sdb_dateRange = dateRange, sdb_channels = chans,
                                  sdb_period = period\<rparr>))))"

subsection \<open>Concrete caches and fetchers used to run the model\<close>

definition emptyCache :: CacheState where
  "emptyCache = \<lparr>memoryCache = Map.empty, cacheDir = Map.empty\<rparr>"

definition noParams :: CacheParams where
  "noParams = \<lparr>p_stationId = None, p_from = None, p_to = None\<rparr>"

text \<open>\<open>{}\<close> as the options argument: no fetcher, no duration override.\<close>

definition noOptions :: "nat CacheOptions" where
  "noOptions = \<lparr>fetcher = None, duration = None\<rparr>"

text \<open>A fetcher that returns \<open>v\<close> and counts its invocations in the world.\<close>

definition countingFetcher :: "jsval \<Rightarrow> nat \<Rightarrow> (error + jsval) \<times> nat" where
  "countingFetcher v n = (Inr v, Suc n)"

text \<open>A fetcher that throws, also counting its invocations.\<close>

definition failingFetcher :: "nat \<Rightarrow> (error + jsval) \<times> nat" where
  "failingFetcher n = (Inl (Error ''IMS API error: 503''), Suc n)"

definition withFetcher :: "(nat \<Rightarrow> (error + jsval) \<times> nat) \<Rightarrow> nat CacheOptions" where
  "withFetcher f = \<lparr>fetcher = Some f, duration = None\<rparr>"

text \<open>A cache whose memory tier holds a stations entry written at time 0.\<close>

definition staleMemoryCache :: CacheState where
  "staleMemoryCache =
     \<lparr>memoryCache = [''stations_list'' \<mapsto> \<lparr>data = JArr [JNum 1], timestamp = 0\<rparr>],
      cacheDir = Map.empty\<rparr>"


subsection \<open>Concrete observations used to run the model\<close>

definition mkReading :: "int \<Rightarrow> real \<Rightarrow> bool \<Rightarrow> DataReading" where
  "mkReading t v ok =
     \<lparr>datetime = t, channels = [\<lparr>cv_value = v, cv_status = (if ok then ''1'' else ''2''), cv_valid = ok\<rparr>]\<rparr>"

definition mkChannel :: "int \<Rightarrow> DataReading list \<Rightarrow> ChannelDataItem" where
  "mkChannel cid rs =
     \<lparr>channelId = cid, ci_data = Some \<lparr>sd_stationId = 178, sd_channelId = cid, sd_data = Some rs\<rparr>\<rparr>"

text \<open>
  The temperature channel of 1970-01-01 (UTC) with readings at 08:00, 14:00 and 20:00
  of 14.0, 22.0 and 18.0 degrees.
\<close>

definition threeTemps :: "ChannelDataItem list" where
  "threeTemps =
     [mkChannel 7 [mkReading (8 * 3600000) 14 True, mkReading (14 * 3600000) 22 True,
                   mkReading (20 * 3600000) 18 True]]"

text \<open>One temperature reading of 99 degrees that the station flagged as invalid.\<close>

definition oneInvalidTemp :: "ChannelDataItem list" where
  "oneInvalidTemp = [mkChannel 7 [mkReading (8 * 3600000) 99 False]]"

subsection \<open>Concrete environments used to run the forecast route\<close>

definition telAvivCoast :: Station where
  "telAvivCoast = \<lparr>st_stationId = 178, st_name = ''TEL AVIV COAST'',
                   st_location = Some \<lparr>latitude = 32.058, longitude = 34.7588\<rparr>\<rparr>"

text \<open>A station that the list carries without a location.\<close>

definition unlocatedStation :: Station where
  "unlocatedStation = \<lparr>st_stationId = 43, st_name = ''MOBILE UNIT'', st_location = None\<rparr>"

definition telAviv :: City where
  "telAviv = \<lparr>city_id = ''telaviv'', city_name = ''Tel Aviv''\<rparr>"

definition feedItem :: ParsedForecast where
  "feedItem = \<lparr>pf_title = ''Tel Aviv forecast'', pf_description = ''Partly cloudy, 15-20 degrees'',
               pf_pubDate = ''2026-02-11T06:00:00Z''\<rparr>"

text \<open>
  What the regular expressions of \<open>extractForecastData\<close> find in
  \<open>"Tel Aviv forecast Partly cloudy, 15-20 degrees"\<close>: the range 15 to 20, whose rounded
  mean is 18, and nothing else.
\<close>

definition feedItemExtracted :: ExtractedForecastData where
  "feedItemExtracted =
     \<lparr>ex_temp = Some ''18'', ex_tempMin = Some ''15'', ex_tempMax = Some ''20'',
      ex_humidity = None, ex_windSpeed = None, ex_windDir = None, ex_rain = None,
      ex_forecastText = ''Partly cloudy, 15-20 degrees'', ex_date = None\<rparr>"

text \<open>
  On 2026-02-11 (day 20495) at 06:00 UTC, stations 178 and 43 known, no feed directory
  on disk, and every upstream channel fetch failing.
\<close>

definition offlineEnv :: ForecastEnv where
  "offlineEnv =
     \<lparr>env_today = 20495,
      env_now = 1770789600000,
      env_tza = utc,
      env_random = (\<lambda>n. 1 / 2),
      env_parseInt = (\<lambda>s. if s = ''178'' then Some 178 else if s = ''43'' then Some 43 else None),
      env_stations = Inr (Some [telAvivCoast, unlocatedStation]),
      env_findNearestCity = (\<lambda>lat lon. telAviv),
      env_downloadDir = Inr None,
      env_getCityForecast = (\<lambda>cityId dir. Inl (Error ''File not found'')),
      env_extractForecastData = (\<lambda>forecast. feedItemExtracted),
      env_getStationData = (\<lambda>sid cid fromDate toDate. Inl (Error ''IMS API error: 503''))\<rparr>"

text \<open>The same day with a feed directory that holds one item for the nearest city.\<close>

definition feedEnv :: ForecastEnv where
  "feedEnv = offlineEnv\<lparr>env_downloadDir := Inr (Some ''data/2026-02-11/06-00-00''),
                         env_getCityForecast := (\<lambda>cityId dir. Inr (Some [feedItem]))\<rparr>"

text \<open>The same day with a data directory that cannot be read.\<close>

definition unreadableEnv :: ForecastEnv where
  "unreadableEnv = offlineEnv\<lparr>env_downloadDir := Inl (Error ''EACCES: permission denied'')\<rparr>"

text \<open>Midnight readings of 14, 15 and 16 degrees on 2026-02-11, -12 and -13.\<close>

definition observedReadings :: "DataReading list" where
  "observedReadings =
     [mkReading (20495 * 86400000) 14 True, mkReading (20496 * 86400000) 15 True,
      mkReading (20497 * 86400000) 16 True]"

text \<open>Midnight readings of 11, 12 and 13 degrees on 2026-02-04, -05 and -06.\<close>

definition pastReadings :: "DataReading list" where
  "pastReadings =
     [mkReading (20488 * 86400000) 11 True, mkReading (20489 * 86400000) 12 True,
      mkReading (20490 * 86400000) 13 True]"

text \<open>
  The same day without a feed, and an upstream that answers for the temperature
  channel only, and only for two date ranges: for 2026-02-11 to 2026-02-17 with the
  first readings, for 2026-02-04 to 2026-02-11 with the second.
\<close>

definition observedEnv :: ForecastEnv where
  "observedEnv =
     offlineEnv\<lparr>env_getStationData :=
       (\<lambda>sid cid fromDate toDate.
          if cid = 7 \<and> fromDate = 20495 \<and> toDate = 20501
          then Inr \<lparr>sd_stationId = 178, sd_channelId = 7, sd_data = Some observedReadings\<rparr>
          else if cid = 7 \<and> fromDate = 20488 \<and> toDate = 20495
          then Inr \<lparr>sd_stationId = 178, sd_channelId = 7, sd_data = Some pastReadings\<rparr>
          else Inl (Error ''IMS API error: 404''))\<rparr>"

section \<open>Two-level cache: expiry, producer results, producer failures\<close>

lemmas cache_defs = getFromMemory_def getFromFile_def setInMemory_def setInFile_def isExpired_def






lemma get_fetch_on_miss:
  assumes "getCacheKey t params = Some key"
    "get t params (options\<lparr>fetcher := None\<rparr>) now s w = (Inr JNull, s2, w)"
    "fetcher options = Some f" "f w = (r, w1)"
  shows "get t params options now s w =
     (case r of Inl e \<Rightarrow> (Inl e, s2, w1)
      | Inr d \<Rightarrow> (Inr d, setInFile key d now (setInMemory key d now s2), w1))"
  using assms
  by (auto simp: get_def effectiveDuration_def Let_def
      split: prod.splits if_splits sum.splits option.splits)



lemma lookup_untouched:
  assumes "getCacheKey t params = Some key"
    "get t params (options\<lparr>fetcher := None\<rparr>) now s w = (Inr JNull, s2, w)"
    "memoryCache s key = None" "cacheDir s key = None"
  shows "s2 = s"
  using assms by (simp add: get_def cache_defs)

lemma lookup_files_subset:
  assumes "get t params (options\<lparr>fetcher := None\<rparr>) now s w = (r, s2, w')"
    "cacheDir s2 k = Some c"
  shows "cacheDir s k = Some c"
  using assms
  by (auto simp: get_def cache_defs Let_def
      split: option.splits if_splits FileContent.splits prod.splits)

lemma lookup_memory_origin:
  assumes "get t params (options\<lparr>fetcher := None\<rparr>) now s w = (r, s2, w')"
    "memoryCache s2 k = Some e"
  shows "memoryCache s k = Some e
       \<or> (\<exists>e0. cacheDir s k = Some (JsonEntry e0) \<and> data e = data e0 \<and> timestamp e = now)"
  using assms
  by (auto simp: get_def cache_defs Let_def
      split: option.splits if_splits FileContent.splits prod.splits)





lemmas cache_run_defs = getCacheKey_def noParams_def noOptions_def emptyCache_def
  withFetcher_def countingFetcher_def failingFetcher_def staleMemoryCache_def
  effectiveDuration_def CACHE_DURATIONS_def







text \<open>
  C5, as the claim states it, fails where the key holds an expired entry: the lookup
  that precedes the fetch evicts it, so after the fetcher has thrown the cache is not
  the cache the call started from.
\<close>

theorem cache_changed_on_failure_counterexample:
  "memoryCache staleMemoryCache ''stations_list'' = Some \<lparr>data = JArr [JNum 1], timestamp = 0\<rparr>
   \<and> fst (get Stations noParams (withFetcher failingFetcher) 172800001 staleMemoryCache 0)
        = Inl (Error ''IMS API error: 503'')
   \<and> memoryCache (fst (snd (get Stations noParams (withFetcher failingFetcher) 172800001
                               staleMemoryCache 0))) ''stations_list'' = None
   \<and> fst (snd (get Stations noParams (withFetcher failingFetcher) 172800001 staleMemoryCache 0))
        \<noteq> staleMemoryCache"
proof -
  have a: "memoryCache staleMemoryCache ''stations_list''
             = Some \<lparr>data = JArr [JNum 1], timestamp = 0\<rparr>"
    by (simp add: staleMemoryCache_def)
  have b: "fst (get Stations noParams (withFetcher failingFetcher) 172800001 staleMemoryCache 0)
        = Inl (Error ''IMS API error: 503'')"
    by (simp add: get_def cache_defs cache_run_defs)
  have c: "memoryCache (fst (snd (get Stations noParams (withFetcher failingFetcher) 172800001
                               staleMemoryCache 0))) ''stations_list'' = None"
    by (simp add: get_def cache_defs cache_run_defs)
  from a c have "fst (snd (get Stations noParams (withFetcher failingFetcher) 172800001
      staleMemoryCache 0)) \<noteq> staleMemoryCache"
    by auto
  with a b c show ?thesis by blast
qed

text \<open>
  C5, amended.  When the lookups miss and the fetcher throws \<open>e\<close>, \<open>get\<close> rejects with
  \<open>e\<close> and the failed fetch writes nothing: the cache is left exactly as the lookups left
  it (\<open>s2\<close>, the cache after the same \<open>get\<close> without a fetcher).  That cache has no
  file that was not there before, every entry of its memory table was there before or
  is the copy of a file's entry, and it is the cache the call started from when the key
  had an entry in neither tier.
\<close>

theorem cache_fetcher_failure_not_cached:
  assumes key: "getCacheKey t params = Some key"
    and f: "fetcher options = Some f" "f w = (Inl e, w1)"
    and miss: "get t params (options\<lparr>fetcher := None\<rparr>) now s w = (Inr JNull, s2, w)"
  shows "get t params options now s w = (Inl e, s2, w1)
       \<and> (memoryCache s key = None \<and> cacheDir s key = None \<longrightarrow> s2 = s)
       \<and> (cacheDir s2 k = Some c \<longrightarrow> cacheDir s k = Some c)
       \<and> (memoryCache s2 k = Some e' \<longrightarrow>
            memoryCache s k = Some e'
            \<or> (\<exists>e0. cacheDir s k = Some (JsonEntry e0) \<and> data e' = data e0 \<and> timestamp e' = now))"
proof (intro conjI impI)
  show "get t params options now s w = (Inl e, s2, w1)"
    using get_fetch_on_miss [OF key miss f] by simp
next
  assume "memoryCache s key = None \<and> cacheDir s key = None"
  then show "s2 = s"
    using lookup_untouched [OF key miss] by blast
next
  assume "cacheDir s2 k = Some c"
  then show "cacheDir s k = Some c"
    by (rule lookup_files_subset [OF miss])
next
  assume "memoryCache s2 k = Some e'"
  then show "memoryCache s k = Some e'
     \<or> (\<exists>e0. cacheDir s k = Some (JsonEntry e0) \<and> data e' = data e0 \<and> timestamp e' = now)"
    by (rule lookup_memory_origin [OF miss])
qed

theorem cache_fetcher_failure_not_cached_witness:
  "get Stations noParams (withFetcher failingFetcher) 0 emptyCache 0
     = (Inl (Error ''IMS API error: 503''), emptyCache, 1)"
  using cache_fetcher_failure_not_cached [where t = Stations and params = noParams
      and key = "''stations_list''" and options = "withFetcher failingFetcher"
      and f = failingFetcher and w = 0 and e = "Error ''IMS API error: 503''" and ?w1.0 = 1
      and now = 0 and s = emptyCache and ?s2.0 = emptyCache]
  by (simp add: get_def cache_defs cache_run_defs)

section \<open>Aggregation: buckets, extrema and the last-observed value\<close>

subsection \<open>Dictionaries\<close>

lemma map_of_updateKey:
  "map_of (updateKey k f m) k' = (if k' = k then map_option f (map_of m k) else map_of m k')"
  by (induction m) (auto simp: updateKey_def)

lemma map_of_ensureKey:
  "map_of (ensureKey k i m) k' = (if k' = k \<and> map_of m k = None then Some i else map_of m k')"
  by (auto simp: ensureKey_def map_add_def split: option.splits)

lemma keys_updateKey: "map fst (updateKey k f m) = map fst m"
  by (induction m) (auto simp: updateKey_def)

lemma distinct_ensureKey:
  "distinct (map fst m) \<Longrightarrow> distinct (map fst (ensureKey k i m))"
  by (auto simp: ensureKey_def map_of_eq_None_iff)

lemma bucket_fold:
  "map_of (foldl (\<lambda>m x. updateKey (kf x) (add x) (ensureKey (kf x) (ini (kf x)) m)) m xs) k =
     (case map_of m k of
        Some a \<Rightarrow> Some (foldl (\<lambda>a x. add x a) a (filter (\<lambda>x. kf x = k) xs))
      | None \<Rightarrow>
          if filter (\<lambda>x. kf x = k) xs = [] then None
          else Some (foldl (\<lambda>a x. add x a) (ini k) (filter (\<lambda>x. kf x = k) xs)))"
proof (induction xs arbitrary: m)
  case Nil
  then show ?case by (simp split: option.splits)
next
  case (Cons x xs)
  show ?case
    by (simp add: Cons.IH map_of_updateKey map_of_ensureKey split: option.splits)
qed

lemma bucket_fold_distinct:
  "distinct (map fst m) \<Longrightarrow>
   distinct (map fst (foldl (\<lambda>m x. updateKey (kf x) (add x) (ensureKey (kf x) (ini (kf x)) m)) m xs))"
  by (induction xs arbitrary: m) (simp_all add: keys_updateKey distinct_ensureKey)

lemma set_insertBy: "set (insertBy cmp x ys) = insert x (set ys)"
  by (induction ys) auto

lemma set_sortBy: "set (sortBy cmp xs) = set xs"
  by (induction xs) (simp_all add: sortBy_def set_insertBy)

lemma length_insertBy: "length (insertBy cmp x ys) = Suc (length ys)"
  by (induction ys) auto

lemma length_sortBy: "length (sortBy cmp xs) = length xs"
  by (induction xs) (simp_all add: sortBy_def length_insertBy)

subsection \<open>The nested loops as one pass over all readings\<close>

lemma daily_loops_flat:
  "foldl (\<lambda>dailyData channel.
            foldl (dailyStep tza (channelId channel)) dailyData (readingsOf channel)) m chans
   = foldl (\<lambda>m x. dailyStep tza (fst x) m (snd x)) m (allReadings chans)"
  by (induction chans arbitrary: m) (simp_all add: allReadings_def foldl_map)

lemma hourly_loops_flat:
  "foldl (\<lambda>hourlyData channel.
            foldl (hourlyStep tza (channelId channel)) hourlyData (readingsOf channel)) m chans
   = foldl (\<lambda>m x. hourlyStep tza (fst x) m (snd x)) m (allReadings chans)"
  by (induction chans arbitrary: m) (simp_all add: allReadings_def foldl_map)

lemma dailyBuckets_flat:
  "dailyBuckets tza chans =
     foldl (\<lambda>m x. updateKey (dayKey tza (datetime (snd x))) (addDaily (fst x) (snd x))
                     (ensureKey (dayKey tza (datetime (snd x)))
                        (newDaily (dayKey tza (datetime (snd x)))) m))
       [] (allReadings chans)"
  by (simp add: dailyBuckets_def daily_loops_flat dailyStep_def Let_def)

lemma dailyBuckets_lookup:
  "map_of (dailyBuckets tza chans) k =
     (if filter (\<lambda>x. dayKey tza (datetime (snd x)) = k) (allReadings chans) = [] then None
      else Some (foldl (\<lambda>a x. addDaily (fst x) (snd x) a) (newDaily k)
                   (filter (\<lambda>x. dayKey tza (datetime (snd x)) = k) (allReadings chans))))"
  unfolding dailyBuckets_flat
  by (simp add: bucket_fold [where kf = "\<lambda>x. dayKey tza (datetime (snd x))"
        and add = "\<lambda>x. addDaily (fst x) (snd x)" and ini = newDaily])

lemma dailyBuckets_distinct: "distinct (map fst (dailyBuckets tza chans))"
  unfolding dailyBuckets_flat
  by (rule bucket_fold_distinct [where kf = "\<lambda>x. dayKey tza (datetime (snd x))"
        and add = "\<lambda>x. addDaily (fst x) (snd x)" and ini = newDaily]) simp

subsection \<open>What one bucket accumulates\<close>

lemma addDaily_date: "da_date (addDaily cid r a) = da_date a"
  by (simp add: addDaily_def addTemp_def Let_def split: list.splits option.splits)

lemma addDaily_temps:
  "da_temps (addDaily cid r a) =
     da_temps a @ (if cid = 7 \<and> channels r \<noteq> [] then [cv_value (hd (channels r))] else [])"
  by (simp add: addDaily_def addTemp_def Let_def split: list.splits option.splits)

lemma addDaily_last:
  "(da_lastTemp (addDaily cid r a), da_lastTempTime (addDaily cid r a)) =
     (if cid = 7 \<and> channels r \<noteq> []
      then track (da_lastTemp a, da_lastTempTime a) (datetime r, cv_value (hd (channels r)))
      else (da_lastTemp a, da_lastTempTime a))"
  by (cases "da_lastTempTime a")
     (simp_all add: addDaily_def addTemp_def Let_def split: list.splits)

lemma fold_addDaily_date:
  "da_date (foldl (\<lambda>a x. addDaily (fst x) (snd x) a) a xs) = da_date a"
  by (induction xs arbitrary: a) (simp_all add: addDaily_date)

lemma fold_addDaily_temps:
  "da_temps (foldl (\<lambda>a x. addDaily (fst x) (snd x) a) a xs) = da_temps a @ map snd (tempsOf xs)"
  by (induction xs arbitrary: a) (auto simp: addDaily_temps tempsOf_def)

lemma fold_addDaily_last:
  "(da_lastTemp (foldl (\<lambda>a x. addDaily (fst x) (snd x) a) a xs),
    da_lastTempTime (foldl (\<lambda>a x. addDaily (fst x) (snd x) a) a xs))
   = foldl track (da_lastTemp a, da_lastTempTime a) (tempsOf xs)"
proof (induction xs arbitrary: a)
  case Nil
  then show ?case by (simp add: tempsOf_def)
next
  case (Cons x xs)
  obtain cid r where x: "x = (cid, r)" by (cases x)
  show ?case
    using addDaily_last [of cid r a]
    by (simp add: Cons.IH x tempsOf_def)
qed

lemma track_latest:
  "ts \<noteq> [] \<Longrightarrow>
   \<exists>t v. foldl track (None, None) ts = (Some v, Some t) \<and> (t, v) \<in> set ts
        \<and> (\<forall>(t', v') \<in> set ts. t' \<le> t)"
proof (induction ts rule: rev_induct)
  case Nil
  then show ?case by simp
next
  case (snoc x ts)
  obtain t1 v1 where x: "x = (t1, v1)" by (cases x)
  show ?case
  proof (cases "ts = []")
    case True
    then show ?thesis by (simp add: x)
  next
    case False
    from snoc.IH [OF False] obtain t v where
      f: "foldl track (None, None) ts = (Some v, Some t)" and m: "(t, v) \<in> set ts"
      and mx: "\<forall>(t', v') \<in> set ts. t' \<le> t"
      by blast
    show ?thesis
    proof (cases "t1 > t")
      case True
      with f m mx show ?thesis by (fastforce simp: x)
    next
      case False
      with f m mx show ?thesis by (fastforce simp: x)
    qed
  qed
qed

lemma mathMin_Min: "xs \<noteq> [] \<Longrightarrow> mathMin xs = Some (Min (set xs))"
proof (cases xs)
  case Nil
  assume "xs \<noteq> []"
  with Nil show ?thesis by simp
next
  case (Cons x rest)
  have "foldl min x rest = fold min rest x"
    by (simp add: foldl_conv_fold min.commute)
  then show ?thesis
    by (simp add: Cons mathMin_def Min.set_eq_fold [symmetric])
qed

lemma mathMax_Max: "xs \<noteq> [] \<Longrightarrow> mathMax xs = Some (Max (set xs))"
proof (cases xs)
  case Nil
  assume "xs \<noteq> []"
  with Nil show ?thesis by simp
next
  case (Cons x rest)
  have "foldl max x rest = fold max rest x"
    by (simp add: foldl_conv_fold max.commute)
  then show ?thesis
    by (simp add: Cons mathMax_def Max.set_eq_fold [symmetric])
qed

lemma tempsOf_bucket:
  "tempsOf (filter (\<lambda>x. dayKey tza (datetime (snd x)) = k) (allReadings chans))
     = temperatureReadings tza chans k"
proof -
  have "filter (\<lambda>(cid, r). cid = 7 \<and> channels r \<noteq> []) (filter (\<lambda>x. dayKey tza (datetime (snd x)) = k) xs)
      = filter (\<lambda>(cid, r). cid = 7 \<and> channels r \<noteq> [] \<and> dayKey tza (datetime r) = k) xs"
    for xs :: "(int \<times> DataReading) list"
    by (induction xs) auto
  then show ?thesis
    by (simp add: tempsOf_def temperatureReadings_def)
qed

subsection \<open>Rows of the daily aggregate\<close>

lemma aggregateDaily_rows:
  "row \<in> set (aggregateDaily tza chans) \<Longrightarrow>
   \<exists>a. map_of (dailyBuckets tza chans) (df_date row) = Some a \<and> row = finishDaily a
      \<and> da_date a = df_date row"
proof -
  assume "row \<in> set (aggregateDaily tza chans)"
  then obtain k a where ka: "(k, a) \<in> set (dailyBuckets tza chans)" and r: "row = finishDaily a"
    by (auto simp: aggregateDaily_def dailyBuckets_def set_sortBy)
  from ka have m: "map_of (dailyBuckets tza chans) k = Some a"
    by (simp add: dailyBuckets_distinct)
  then have "da_date a = k"
    by (auto simp: dailyBuckets_lookup fold_addDaily_date newDaily_def split: if_splits)
  moreover have "df_date row = da_date a"
    by (simp add: r finishDaily_def)
  ultimately show ?thesis using m r by auto
qed

lemma bucket_temperatures:
  assumes "map_of (dailyBuckets tza chans) k = Some a"
  shows "da_temps a = map snd (temperatureReadings tza chans k)"
    and "(da_lastTemp a, da_lastTempTime a) = foldl track (None, None) (temperatureReadings tza chans k)"
proof -
  let ?xs = "filter (\<lambda>x. dayKey tza (datetime (snd x)) = k) (allReadings chans)"
  from assms have a: "a = foldl (\<lambda>a x. addDaily (fst x) (snd x) a) (newDaily k) ?xs"
    by (auto simp: dailyBuckets_lookup split: if_splits)
  show "da_temps a = map snd (temperatureReadings tza chans k)"
    unfolding a fold_addDaily_temps tempsOf_bucket by (simp add: newDaily_def)
  show "(da_lastTemp a, da_lastTempTime a) = foldl track (None, None) (temperatureReadings tza chans k)"
    unfolding a fold_addDaily_last tempsOf_bucket by (simp add: newDaily_def)
qed

lemma threeTemps_eval:
  "aggregateDaily utc threeTemps =
     [\<lparr>df_date = ''1970-01-01'', df_tempMin = Some ''14.0'', df_tempMax = Some ''22.0'',
       df_tempCurrent = Some ''18.0'', df_humidity = None, df_windSpeed = None, df_rain = None\<rparr>]"
  by code_simp

lemma threeTemps_T:
  "temperatureReadings utc threeTemps ''1970-01-01'' = [(28800000, 14), (50400000, 22), (72000000, 18)]"
  by code_simp


text \<open>
  C7.  Every row that \<open>aggregateDaily\<close> returns is a day bucket.  With \<open>T\<close> the
  temperature readings of that day (channel 7, with their time values): if there are
  none, \<open>tempMin\<close>, \<open>tempMax\<close> and \<open>tempCurrent\<close> are \<open>null\<close>; otherwise \<open>tempMin\<close> is the
  minimum and \<open>tempMax\<close> the maximum of their values, and \<open>tempCurrent\<close> is the value of a
  reading of \<open>T\<close> whose time value no reading of \<open>T\<close> exceeds, each printed by
  \<open>toFixed(1)\<close>.
\<close>

theorem aggregateDaily_min_max_current:
  assumes row: "row \<in> set (aggregateDaily tza chans)"
  shows "(temperatureReadings tza chans (df_date row) = [] \<longrightarrow>
            df_tempMin row = None \<and> df_tempMax row = None \<and> df_tempCurrent row = None)
       \<and> (temperatureReadings tza chans (df_date row) \<noteq> [] \<longrightarrow>
            df_tempMin row
              = Some (toFixed 1 (Min (snd ` set (temperatureReadings tza chans (df_date row)))))
          \<and> df_tempMax row
              = Some (toFixed 1 (Max (snd ` set (temperatureReadings tza chans (df_date row)))))
          \<and> (\<exists>(t, v) \<in> set (temperatureReadings tza chans (df_date row)).
                df_tempCurrent row = Some (toFixed 1 v)
                \<and> (\<forall>(t', v') \<in> set (temperatureReadings tza chans (df_date row)). t' \<le> t)))"
proof -
  let ?T = "temperatureReadings tza chans (df_date row)"
  from aggregateDaily_rows [OF row] obtain a where
    m: "map_of (dailyBuckets tza chans) (df_date row) = Some a" and r: "row = finishDaily a"
    by blast
  note temps = bucket_temperatures(1) [OF m]
  note last = bucket_temperatures(2) [OF m]
  have fmin: "df_tempMin row
      = (if da_temps a \<noteq> [] then map_option (toFixed 1) (mathMin (da_temps a)) else None)"
    and fmax: "df_tempMax row
      = (if da_temps a \<noteq> [] then map_option (toFixed 1) (mathMax (da_temps a)) else None)"
    and fcur: "df_tempCurrent row = map_option (toFixed 1) (da_lastTemp a)"
    by (simp_all add: r finishDaily_def split: option.splits)
  have none: "?T = [] \<longrightarrow> df_tempMin row = None \<and> df_tempMax row = None \<and> df_tempCurrent row = None"
  proof
    assume e: "?T = []"
    with temps have "da_temps a = []" by simp
    moreover from last e have "da_lastTemp a = None" by simp
    ultimately show "df_tempMin row = None \<and> df_tempMax row = None \<and> df_tempCurrent row = None"
      by (simp add: fmin fmax fcur)
  qed
  have some: "?T \<noteq> [] \<longrightarrow>
       df_tempMin row = Some (toFixed 1 (Min (snd ` set ?T)))
     \<and> df_tempMax row = Some (toFixed 1 (Max (snd ` set ?T)))
     \<and> (\<exists>(t, v) \<in> set ?T. df_tempCurrent row = Some (toFixed 1 v)
            \<and> (\<forall>(t', v') \<in> set ?T. t' \<le> t))"
  proof
    assume ne: "?T \<noteq> []"
    with temps have tne: "da_temps a \<noteq> []" by simp
    have s: "set (da_temps a) = snd ` set ?T" by (simp add: temps)
    have mn: "df_tempMin row = Some (toFixed 1 (Min (snd ` set ?T)))"
      using tne by (simp add: fmin mathMin_Min s)
    have mx: "df_tempMax row = Some (toFixed 1 (Max (snd ` set ?T)))"
      using tne by (simp add: fmax mathMax_Max s)
    from track_latest [OF ne] obtain t v where
      f: "foldl track (None, None) ?T = (Some v, Some t)" and mem: "(t, v) \<in> set ?T"
      and lat: "\<forall>(t', v') \<in> set ?T. t' \<le> t"
      by blast
    from f last have "da_lastTemp a = Some v" by simp
    then have "df_tempCurrent row = Some (toFixed 1 v)"
      by (simp add: fcur)
    with mem lat have "\<exists>(t, v) \<in> set ?T. df_tempCurrent row = Some (toFixed 1 v)
            \<and> (\<forall>(t', v') \<in> set ?T. t' \<le> t)"
      by blast
    with mn mx show "df_tempMin row = Some (toFixed 1 (Min (snd ` set ?T)))
     \<and> df_tempMax row = Some (toFixed 1 (Max (snd ` set ?T)))
     \<and> (\<exists>(t, v) \<in> set ?T. df_tempCurrent row = Some (toFixed 1 v)
            \<and> (\<forall>(t', v') \<in> set ?T. t' \<le> t))"
      by blast
  qed
  from none some show ?thesis by blast
qed


text \<open>
  The readings (08:00, 14.0), (14:00, 22.0), (20:00, 18.0) of one day give
  \<open>tempMin = "14.0"\<close>, \<open>tempMax = "22.0"\<close> and \<open>tempCurrent = "18.0"\<close>: the value of the
  latest reading, which is neither the maximum nor the average.
\<close>

theorem aggregateDaily_min_max_current_witness:
  "aggregateDaily utc threeTemps =
     [\<lparr>df_date = ''1970-01-01'', df_tempMin = Some ''14.0'', df_tempMax = Some ''22.0'',
       df_tempCurrent = Some ''18.0'', df_humidity = None, df_windSpeed = None, df_rain = None\<rparr>]
   \<and> temperatureReadings utc threeTemps ''1970-01-01''
        = [(28800000, 14), (50400000, 22), (72000000, 18)]
   \<and> Some ''14.0'' = Some (toFixed 1 (Min (snd ` set (temperatureReadings utc threeTemps ''1970-01-01''))))
   \<and> Some ''22.0'' = Some (toFixed 1 (Max (snd ` set (temperatureReadings utc threeTemps ''1970-01-01''))))
   \<and> (\<exists>(t, v) \<in> set (temperatureReadings utc threeTemps ''1970-01-01'').
         Some ''18.0'' = Some (toFixed 1 v) \<and> t = 72000000)"
proof -
  let ?row = "\<lparr>df_date = ''1970-01-01'', df_tempMin = Some ''14.0'', df_tempMax = Some ''22.0'',
       df_tempCurrent = Some ''18.0'', df_humidity = None, df_windSpeed = None, df_rain = None\<rparr>"
  have mem: "?row \<in> set (aggregateDaily utc threeTemps)"
    by (simp add: threeTemps_eval)
  have f18: "toFixed 1 18 = ''18.0''"
    by code_simp
  show ?thesis
    using aggregateDaily_min_max_current [OF mem]
    by (simp add: threeTemps_eval threeTemps_T f18)
qed

subsection \<open>The validity flag\<close>

lemma readingsOf_eraseValidity:
  "readingsOf (eraseValidity ch) = map eraseValidityReading (readingsOf ch)"
  by (simp add: readingsOf_def eraseValidity_def split: option.splits)

lemma channelId_eraseValidity: "channelId (eraseValidity ch) = channelId ch"
  by (simp add: eraseValidity_def)

lemma addDaily_eraseValidity: "addDaily cid (eraseValidityReading r) = addDaily cid r"
  by (rule ext)
     (simp add: addDaily_def eraseValidityReading_def eraseValidityValue_def split: list.splits)

lemma addHourly_eraseValidity: "addHourly cid (eraseValidityReading r) = addHourly cid r"
  by (rule ext)
     (simp add: addHourly_def eraseValidityReading_def eraseValidityValue_def split: list.splits)

lemma dailyStep_eraseValidity:
  "dailyStep tza cid m (eraseValidityReading r) = dailyStep tza cid m r"
  by (simp add: dailyStep_def addDaily_eraseValidity) (simp add: eraseValidityReading_def)

lemma hourlyStep_eraseValidity:
  "hourlyStep tza cid m (eraseValidityReading r) = hourlyStep tza cid m r"
  by (simp add: hourlyStep_def addHourly_eraseValidity) (simp add: eraseValidityReading_def)

lemma daily_loops_eraseValidity:
  "foldl (\<lambda>dailyData channel.
            foldl (dailyStep tza (channelId channel)) dailyData (readingsOf channel))
      m (map eraseValidity chans)
   = foldl (\<lambda>dailyData channel.
              foldl (dailyStep tza (channelId channel)) dailyData (readingsOf channel)) m chans"
  by (induction chans arbitrary: m)
     (simp_all add: readingsOf_eraseValidity channelId_eraseValidity foldl_map
        dailyStep_eraseValidity)

lemma hourly_loops_eraseValidity:
  "foldl (\<lambda>hourlyData channel.
            foldl (hourlyStep tza (channelId channel)) hourlyData (readingsOf channel))
      m (map eraseValidity chans)
   = foldl (\<lambda>hourlyData channel.
              foldl (hourlyStep tza (channelId channel)) hourlyData (readingsOf channel)) m chans"
  by (induction chans arbitrary: m)
     (simp_all add: readingsOf_eraseValidity channelId_eraseValidity foldl_map
        hourlyStep_eraseValidity)

lemma aggregateDaily_eraseValidity:
  "aggregateDaily tza (map eraseValidity chans) = aggregateDaily tza chans"
  by (simp add: aggregateDaily_def daily_loops_eraseValidity)

lemma aggregateHourly_eraseValidity:
  "aggregateHourly tza (map eraseValidity chans) = aggregateHourly tza chans"
  by (simp add: aggregateHourly_def hourly_loops_eraseValidity)

lemma oneInvalidTemp_daily:
  "aggregateDaily utc oneInvalidTemp =
     [\<lparr>df_date = ''1970-01-01'', df_tempMin = Some ''99.0'', df_tempMax = Some ''99.0'',
       df_tempCurrent = Some ''99.0'', df_humidity = None, df_windSpeed = None, df_rain = None\<rparr>]"
  by code_simp

lemma oneInvalidTemp_hourly:
  "aggregateHourly utc oneInvalidTemp =
     [\<lparr>hf_time = ''1970-01-01 08:00'', hf_temp = Some ''99.0'', hf_humidity = None,
       hf_windSpeed = None, hf_windDir = None, hf_rain = None\<rparr>]"
  by code_simp

text \<open>
  C6, as the claim states it, fails: neither function reads the \<open>valid\<close> field.  A single
  temperature reading of 99 degrees with \<open>valid = false\<close> becomes the minimum, the
  maximum and the current temperature of its day and the average of its hour.
\<close>

theorem aggregation_uses_invalid_reading_counterexample:
  "oneInvalidTemp =
     [\<lparr>channelId = 7,
       ci_data = Some \<lparr>sd_stationId = 178, sd_channelId = 7,
         sd_data = Some [\<lparr>datetime = 28800000,
                          channels = [\<lparr>cv_value = 99, cv_status = ''2'', cv_valid = False\<rparr>]\<rparr>]\<rparr>\<rparr>]
   \<and> aggregateDaily utc oneInvalidTemp =
       [\<lparr>df_date = ''1970-01-01'', df_tempMin = Some ''99.0'', df_tempMax = Some ''99.0'',
         df_tempCurrent = Some ''99.0'', df_humidity = None, df_windSpeed = None, df_rain = None\<rparr>]
   \<and> aggregateHourly utc oneInvalidTemp =
       [\<lparr>hf_time = ''1970-01-01 08:00'', hf_temp = Some ''99.0'', hf_humidity = None,
         hf_windSpeed = None, hf_windDir = None, hf_rain = None\<rparr>]"
  by (simp add: oneInvalidTemp_daily oneInvalidTemp_hourly)
     (simp add: oneInvalidTemp_def mkChannel_def mkReading_def)

text \<open>
  C6, amended.  \<open>aggregateHourly\<close> and \<open>aggregateDaily\<close> do not consult the validity of a
  reading: inputs that differ only in the \<open>valid\<close> flags and \<open>status\<close> marks of their
  channel values give the same output.
\<close>

theorem aggregation_ignores_validity:
  assumes "map eraseValidity chans = map eraseValidity chans'"
  shows "aggregateHourly tza chans = aggregateHourly tza chans'
       \<and> aggregateDaily tza chans = aggregateDaily tza chans'"
proof -
  have "aggregateHourly tza chans = aggregateHourly tza (map eraseValidity chans)"
    by (simp add: aggregateHourly_eraseValidity)
  also have "\<dots> = aggregateHourly tza chans'"
    unfolding assms by (simp add: aggregateHourly_eraseValidity)
  finally have h: "aggregateHourly tza chans = aggregateHourly tza chans'" .
  have "aggregateDaily tza chans = aggregateDaily tza (map eraseValidity chans)"
    by (simp add: aggregateDaily_eraseValidity)
  also have "\<dots> = aggregateDaily tza chans'"
    unfolding assms by (simp add: aggregateDaily_eraseValidity)
  finally have d: "aggregateDaily tza chans = aggregateDaily tza chans'" .
  from h d show ?thesis by simp
qed

theorem aggregation_ignores_validity_witness:
  "aggregateHourly utc oneInvalidTemp = aggregateHourly utc [mkChannel 7 [mkReading (8 * 3600000) 99 True]]
   \<and> aggregateDaily utc oneInvalidTemp = aggregateDaily utc [mkChannel 7 [mkReading (8 * 3600000) 99 True]]"
proof -
  have "map eraseValidity oneInvalidTemp
          = map eraseValidity [mkChannel 7 [mkReading (8 * 3600000) 99 True]]"
    by (simp add: oneInvalidTemp_def mkChannel_def mkReading_def eraseValidity_def
          eraseValidityReading_def eraseValidityValue_def)
  then show ?thesis
    by (rule aggregation_ignores_validity)
qed
section \<open>Cache keys\<close>

text \<open>
  C10.  The key of the forecast domain type joins station id, from and to with
  underscores, so parameter sets whose underscores fall differently collide:
  \<open>{stationId: "1_2", from: "3", to: "4"}\<close> and \<open>{stationId: "1", from: "2_3", to: "4"}\<close>
  are distinct and have the same key; a value stored under the second replaces, in both
  tiers, the value stored under the first, and is what a read of the first finds.
\<close>

theorem getCacheKey_not_injective:
  fixes s :: CacheState and v v' :: jsval and now :: int
  defines "p1 \<equiv> \<lparr>p_stationId = Some (IdString ''1_2''), p_from = Some ''3'', p_to = Some ''4''\<rparr>"
      and "p2 \<equiv> \<lparr>p_stationId = Some (IdString ''1''), p_from = Some ''2_3'', p_to = Some ''4''\<rparr>"
  shows "p1 \<noteq> p2
       \<and> getCacheKey Forecast p1 = Some ''forecast_1_2_3_4''
       \<and> getCacheKey Forecast p2 = Some ''forecast_1_2_3_4''
       \<and> memoryCache (set' Forecast v' p2 now (set' Forecast v p1 now s)) ''forecast_1_2_3_4''
           = Some \<lparr>data = v', timestamp = now\<rparr>
       \<and> cacheDir (set' Forecast v' p2 now (set' Forecast v p1 now s)) ''forecast_1_2_3_4''
           = Some (JsonEntry \<lparr>data = v', timestamp = now\<rparr>)
       \<and> fst (getFromMemory ''forecast_1_2_3_4'' (CACHE_DURATIONS Forecast) now
                (set' Forecast v' p2 now (set' Forecast v p1 now s))) = v'"
  by (simp add: p1_def p2_def getCacheKey_def tplId_def tplStr_def set'_def setInFile_def
        setInMemory_def getFromMemory_def isExpired_def CACHE_DURATIONS_def)


section \<open>Multi-channel fetch: failed channels are dropped\<close>

lemma promiseAll_fetchChannel:
  "promiseAll (map (fetchChannel gsd sid fromDate toDate) cids)
     = Inr (map (\<lambda>cid. case gsd sid cid fromDate toDate of
                          Inl err \<Rightarrow> None
                        | Inr d \<Rightarrow> Some \<lparr>channelId = cid, ci_data = Some d\<rparr>) cids)"
  by (induction cids) (simp_all add: fetchChannel_def split: sum.splits)

lemma getStationDataMultiChannel_eq:
  "getStationDataMultiChannel gsd sid cids fromDate toDate
     = Inr (List.map_filter
              (\<lambda>cid. case gsd sid cid fromDate toDate of
                        Inl err \<Rightarrow> None
                      | Inr d \<Rightarrow> Some \<lparr>channelId = cid, ci_data = Some d\<rparr>) cids)"
proof -
  have "List.map_filter (\<lambda>r. r) (map f xs) = List.map_filter f xs"
    for f :: "int \<Rightarrow> ChannelDataItem option" and xs
    by (induction xs) (simp_all add: List.map_filter_def)
  then show ?thesis
    by (simp add: getStationDataMultiChannel_def promiseAll_fetchChannel)
qed

text \<open>
  C9.  \<open>getStationDataMultiChannel\<close> never rejects: it resolves to a list, which holds,
  in the order of \<open>channelIds\<close>, one item for each channel whose \<open>getStationData\<close> call
  succeeded, carrying that channel's id and data.  The ids of the list are the
  requested ids whose fetch did not throw, so the list is empty when all fail.
\<close>

theorem getStationDataMultiChannel_drops_failures:
  "getStationDataMultiChannel gsd sid cids fromDate toDate
     = Inr (List.map_filter
              (\<lambda>cid. case gsd sid cid fromDate toDate of
                        Inl err \<Rightarrow> None
                      | Inr d \<Rightarrow> Some \<lparr>channelId = cid, ci_data = Some d\<rparr>) cids)
   \<and> map channelId (projr (getStationDataMultiChannel gsd sid cids fromDate toDate))
       = filter (\<lambda>cid. \<not> isl (gsd sid cid fromDate toDate)) cids
   \<and> \<not> isl (getStationDataMultiChannel gsd sid cids fromDate toDate)"
proof -
  have "map channelId (List.map_filter
              (\<lambda>cid. case gsd sid cid fromDate toDate of
                        Inl err \<Rightarrow> None
                      | Inr d \<Rightarrow> Some \<lparr>channelId = cid, ci_data = Some d\<rparr>) cids)
        = filter (\<lambda>cid. \<not> isl (gsd sid cid fromDate toDate)) cids"
    by (induction cids) (auto simp: List.map_filter_def split: sum.splits)
  then show ?thesis
    by (simp add: getStationDataMultiChannel_eq)
qed

section \<open>Synthetic forecasts: one entry per day of the window\<close>

lemma expectedDays_eq: "expectedDays dateRange = dr_to dateRange - dr_from dateRange + 1"
proof -
  have q: "real_of_int (dr_to dateRange * msPerDay - dr_from dateRange * msPerDay)
          / real_of_int (1000 * 60 * 60 * 24)
        = real_of_int (dr_to dateRange - dr_from dateRange)"
    unfolding msPerDay_def by (simp add: diff_divide_distrib)
  show ?thesis
    unfolding expectedDays_def by (simp only: q ceiling_of_int)
qed

lemma fallbackDay_fields:
  "df_date (fst (fallbackDay b rnd cur di i)) = isoDate cur"
  "df_tempMin (fst (fallbackDay b rnd cur di i)) \<noteq> None"
  "df_tempMax (fst (fallbackDay b rnd cur di i)) \<noteq> None"
  by (simp_all add: fallbackDay_def Let_def)

lemma fallbackDailyLoop_done:
  "t < c \<Longrightarrow> fallbackDailyLoop (t * msPerDay) b rnd (c * msPerDay) di i fs = (fs, i)"
  by (subst fallbackDailyLoop.simps) (simp add: msPerDay_def)

lemma fallbackDailyLoop_step:
  "c \<le> t \<Longrightarrow>
   fallbackDailyLoop (t * msPerDay) b rnd (c * msPerDay) di i fs
     = fallbackDailyLoop (t * msPerDay) b rnd ((c + 1) * msPerDay) (di + 1)
         (snd (fallbackDay b rnd (c * msPerDay) di i))
         (fs @ [fst (fallbackDay b rnd (c * msPerDay) di i)])"
  by (subst fallbackDailyLoop.simps) (simp add: msPerDay_def algebra_simps)

lemma fallbackDailyLoop_dates:
  "map df_date (fst (fallbackDailyLoop (t * msPerDay) b rnd (c * msPerDay) di i fs))
     = map df_date fs @ map (\<lambda>d. isoDate (d * msPerDay)) [c..t]"
proof (induction "nat (t + 1 - c)" arbitrary: c di i fs)
  case 0
  then have "t < c" by simp
  then show ?case by (simp add: fallbackDailyLoop_done)
next
  case (Suc n)
  then have le: "c \<le> t" and n: "n = nat (t + 1 - (c + 1))" by simp_all
  have u: "[c..t] = c # [c + 1..t]"
    using le by (simp add: upto_rec1)
  show ?case
    unfolding fallbackDailyLoop_step [OF le] Suc.hyps(1) [OF n] u
    by (simp add: fallbackDay_fields)
qed

lemma fallbackDailyLoop_temps:
  "\<forall>e \<in> set fs. df_tempMin e \<noteq> None \<and> df_tempMax e \<noteq> None \<Longrightarrow>
   \<forall>e \<in> set (fst (fallbackDailyLoop (t * msPerDay) b rnd (c * msPerDay) di i fs)).
      df_tempMin e \<noteq> None \<and> df_tempMax e \<noteq> None"
proof (induction "nat (t + 1 - c)" arbitrary: c di i fs)
  case 0
  then have "t < c" by simp
  with 0 show ?case by (simp add: fallbackDailyLoop_done)
next
  case (Suc n)
  then have le: "c \<le> t" and n: "n = nat (t + 1 - (c + 1))" by simp_all
  have "\<forall>e \<in> set (fs @ [fst (fallbackDay b rnd (c * msPerDay) di i)]).
          df_tempMin e \<noteq> None \<and> df_tempMax e \<noteq> None"
    using Suc.prems by (auto simp: fallbackDay_def Let_def)
  from Suc.hyps(1) [OF n this] show ?case
    unfolding fallbackDailyLoop_step [OF le] .
qed

lemma generateFallbackDailyForecast_dates:
  "map df_date (fst (generateFallbackDailyForecast fromDate toDate b rnd i))
     = map (\<lambda>d. isoDate (d * msPerDay)) [fromDate..toDate]"
  by (simp add: generateFallbackDailyForecast_def fallbackDailyLoop_dates)

lemma generateFallbackDailyForecast_length:
  "length (fst (generateFallbackDailyForecast fromDate toDate b rnd i))
     = nat (toDate - fromDate + 1)"
proof -
  have "length (map df_date (fst (generateFallbackDailyForecast fromDate toDate b rnd i)))
          = length [fromDate..toDate]"
    by (simp only: generateFallbackDailyForecast_dates length_map)
  then show ?thesis by simp
qed

lemma generateFallbackDailyForecast_temps:
  "\<forall>e \<in> set (fst (generateFallbackDailyForecast fromDate toDate b rnd i)).
      df_tempMin e \<noteq> None \<and> df_tempMax e \<noteq> None"
  unfolding generateFallbackDailyForecast_def
  by (rule fallbackDailyLoop_temps) simp

section \<open>The forecast route: source tag and coverage fallback\<close>

lemma forecastHandler_found:
  assumes "stationId \<noteq> []" "env_stations env = Inr stations"
    "findStation env stations stationId = Some station"
  shows "forecastHandler env (Some stationId) period =
     forecastForStation env stationId period
       (getForecastDateRange (env_today env) (periodOrToday period)) station"
  using assms by (simp add: forecastHandler_def)

lemma forecastForStation_located:
  assumes "st_location station = Some location"
  shows "forecastForStation env stationId period dr station =
     (case tryXmlForecast env stationId period dr
             (env_findNearestCity env (latitude location) (longitude location)) of
        Inl err \<Rightarrow> Failure 500 ''Failed to fetch forecast data''
      | Inr (Some response) \<Rightarrow> Json response
      | Inr None \<Rightarrow>
          Json \<lparr>b_source = ''station'', b_stationId = stationId, b_cityId = None,
                b_cityName = None, b_period = period, b_dateRange = dr,
                b_forecast =
                  stationForecast env period dr
                    (projr (getStationDataMultiChannel (env_getStationData env)
                              (env_parseInt env stationId) forecastChannelIds
                              (dr_from dr) (dr_to dr)))\<rparr>)"
  using assms
  by (simp add: forecastForStation_def getStationDataMultiChannel_eq
      split: sum.splits option.splits)

lemma forecastHandler_resolved:
  assumes "stationId \<noteq> []" "env_stations env = Inr stations"
    "findStation env stations stationId = Some station" "st_location station = Some location"
  shows "forecastHandler env (Some stationId) period =
     (case tryXmlForecast env stationId period
             (getForecastDateRange (env_today env) (periodOrToday period))
             (env_findNearestCity env (latitude location) (longitude location)) of
        Inl err \<Rightarrow> Failure 500 ''Failed to fetch forecast data''
      | Inr (Some response) \<Rightarrow> Json response
      | Inr None \<Rightarrow>
          Json \<lparr>b_source = ''station'', b_stationId = stationId, b_cityId = None,
                b_cityName = None, b_period = period,
                b_dateRange = getForecastDateRange (env_today env) (periodOrToday period),
                b_forecast =
                  stationForecast env period
                    (getForecastDateRange (env_today env) (periodOrToday period))
                    (projr (getStationDataMultiChannel (env_getStationData env)
                              (env_parseInt env stationId) forecastChannelIds
                              (dr_from (getForecastDateRange (env_today env) (periodOrToday period)))
                              (dr_to (getForecastDateRange (env_today env) (periodOrToday period)))))\<rparr>)"
  by (simp only: forecastHandler_found [OF assms(1-3)] forecastForStation_located [OF assms(4)])

lemma tryXmlForecast_source:
  "tryXmlForecast env stationId period dateRange city = Inr (Some response) \<Longrightarrow>
   b_source response = ''xml''"
  by (auto simp: tryXmlForecast_def formatForecastResponse_def
      split: option.splits if_splits sum.splits)

lemma tryXmlForecast_hit_iff:
  "(\<exists>response. tryXmlForecast env stationId period dateRange city = Inr (Some response))
     = (\<exists>dir items. env_downloadDir env = Inr (Some dir) \<and> dir \<noteq> []
          \<and> env_getCityForecast env (city_id city) dir = Inr (Some items) \<and> items \<noteq> [])"
  by (auto simp: tryXmlForecast_def split: option.splits if_splits sum.splits)

lemma tryXmlForecast_throws_iff:
  "(tryXmlForecast env stationId period dateRange city = Inl err) = (env_downloadDir env = Inl err)"
  by (auto simp: tryXmlForecast_def split: option.splits if_splits sum.splits)

text \<open>Every response of the route: one of the three error answers, or a body tagged xml or station.\<close>

lemma forecastHandler_responses:
  "(\<exists>body. forecastHandler env q period = Json body
        \<and> (b_source body = ''xml'' \<or> b_source body = ''station''))
   \<or> forecastHandler env q period = Failure 400 ''Station ID is required''
   \<or> forecastHandler env q period = Failure 404 ''Station not found''
   \<or> forecastHandler env q period = Failure 500 ''Failed to fetch forecast data''"
  by (auto simp: forecastHandler_def forecastForStation_def getStationDataMultiChannel_eq
      dest: tryXmlForecast_source split: option.splits sum.splits)

lemma offline_channels:
  "getStationDataMultiChannel (env_getStationData offlineEnv) sid forecastChannelIds f t = Inr []"
  by (simp add: getStationDataMultiChannel_eq offlineEnv_def forecastChannelIds_def
      List.map_filter_def)

lemma aggregateDaily_Nil: "aggregateDaily tza [] = []"
  by (simp add: aggregateDaily_def sortBy_def)

lemma aggregateHourly_Nil: "aggregateHourly tza [] = []"
  by (simp add: aggregateHourly_def sortBy_def)

lemma offline_station:
  "env_stations offlineEnv = Inr (Some [telAvivCoast, unlocatedStation])"
  "findStation offlineEnv (Some [telAvivCoast, unlocatedStation]) ''178'' = Some telAvivCoast"
  "findStation offlineEnv (Some [telAvivCoast, unlocatedStation]) ''43'' = Some unlocatedStation"
  "findStation offlineEnv (Some [telAvivCoast, unlocatedStation]) ''999'' = None"
  "st_location telAvivCoast = Some \<lparr>latitude = 32.058, longitude = 34.7588\<rparr>"
  "st_location unlocatedStation = None"
  "env_today offlineEnv = 20495"
  by (simp_all add: offlineEnv_def findStation_def telAvivCoast_def unlocatedStation_def)

lemma offline_week:
  "forecastHandler offlineEnv (Some ''178'') (Some ''week'') =
     Json \<lparr>b_source = ''station'', b_stationId = ''178'', b_cityId = None, b_cityName = None,
           b_period = Some ''week'', b_dateRange = \<lparr>dr_from = 20495, dr_to = 20501\<rparr>,
           b_forecast =
             Daily (fst (generateFallbackDailyForecast 20495 20501 20 (env_random offlineEnv) 0))\<rparr>"
proof -
  have x: "tryXmlForecast offlineEnv ''178'' (Some ''week'') d c = Inr None" for d c
    by (simp add: offlineEnv_def tryXmlForecast_def)
  have dr: "getForecastDateRange 20495 ''week'' = \<lparr>dr_from = 20495, dr_to = 20501\<rparr>"
    by (simp add: getForecastDateRange_def)
  show ?thesis
    by (simp add: forecastHandler_resolved [OF _ offline_station(1,2,5)] offline_station(7) x dr
        offline_channels stationForecast_def aggregateDaily_Nil forecastLength_def
        expectedDays_eq generateFallbackForecast_def periodOrToday_def)
qed

lemma feed_station:
  "env_stations feedEnv = Inr (Some [telAvivCoast, unlocatedStation])"
  "findStation feedEnv (Some [telAvivCoast, unlocatedStation]) ''178'' = Some telAvivCoast"
  "env_today feedEnv = 20495"
  by (simp_all add: feedEnv_def offlineEnv_def findStation_def telAvivCoast_def
      unlocatedStation_def)

lemma feed_week:
  "forecastHandler feedEnv (Some ''178'') (Some ''week'') =
     Json \<lparr>b_source = ''xml'', b_stationId = ''178'', b_cityId = Some ''telaviv'',
           b_cityName = Some ''Tel Aviv'', b_period = Some ''week'',
           b_dateRange = \<lparr>dr_from = 20495, dr_to = 20501\<rparr>,
           b_forecast =
             Daily [\<lparr>df_date = ''2026-02-11'', df_tempMin = Some ''15'', df_tempMax = Some ''20'',
                     df_tempCurrent = Some ''18'', df_humidity = Some ''N/A'',
                     df_windSpeed = Some ''N/A'', df_rain = Some ''0.0''\<rparr>]\<rparr>"
proof -
  have dr: "getForecastDateRange 20495 ''week'' = \<lparr>dr_from = 20495, dr_to = 20501\<rparr>"
    by (simp add: getForecastDateRange_def)
  show ?thesis
    by (simp add: forecastHandler_resolved [OF _ feed_station(1,2) offline_station(5)]
          feed_station(3) periodOrToday_def dr)
       (simp add: tryXmlForecast_def formatForecastResponse_def feedEnv_def offlineEnv_def
          telAviv_def convertToDailyFormat_def dailyEntry_def feedItemExtracted_def
          feedItem_def strOr_def beforeT_def)
qed

lemma observed_station:
  "env_stations observedEnv = Inr (Some [telAvivCoast, unlocatedStation])"
  "findStation observedEnv (Some [telAvivCoast, unlocatedStation]) ''178'' = Some telAvivCoast"
  "env_today observedEnv = 20495"
  "env_tza observedEnv = utc"
  "env_parseInt observedEnv ''178'' = Some 178"
  "tryXmlForecast observedEnv ''178'' period dateRange city = Inr None"
  by (simp_all add: observedEnv_def offlineEnv_def findStation_def telAvivCoast_def
      unlocatedStation_def tryXmlForecast_def)

text \<open>The upstream of \<open>observedEnv\<close> answers by the window it is asked for.\<close>

lemma observed_channels:
  "getStationDataMultiChannel (env_getStationData observedEnv) sid forecastChannelIds 20495 20501 =
     Inr [mkChannel 7 observedReadings]"
  by (simp add: getStationDataMultiChannel_eq observedEnv_def offlineEnv_def forecastChannelIds_def
      List.map_filter_def mkChannel_def)

lemma observed_past_channels:
  "getStationDataMultiChannel (env_getStationData observedEnv) sid forecastChannelIds 20488 20495 =
     Inr [mkChannel 7 pastReadings]"
  by (simp add: getStationDataMultiChannel_eq observedEnv_def offlineEnv_def forecastChannelIds_def
      List.map_filter_def mkChannel_def)

lemma observed_aggregate:
  "aggregateDaily utc
     [mkChannel 7 observedReadings] =
     [\<lparr>df_date = ''2026-02-11'', df_tempMin = Some ''14.0'', df_tempMax = Some ''14.0'',
       df_tempCurrent = Some ''14.0'', df_humidity = None, df_windSpeed = None, df_rain = None\<rparr>,
      \<lparr>df_date = ''2026-02-12'', df_tempMin = Some ''15.0'', df_tempMax = Some ''15.0'',
       df_tempCurrent = Some ''15.0'', df_humidity = None, df_windSpeed = None, df_rain = None\<rparr>,
      \<lparr>df_date = ''2026-02-13'', df_tempMin = Some ''16.0'', df_tempMax = Some ''16.0'',
       df_tempCurrent = Some ''16.0'', df_humidity = None, df_windSpeed = None, df_rain = None\<rparr>]"
  by code_simp

lemma unlocated_week:
  "forecastHandler offlineEnv (Some ''43'') (Some ''week'') =
     Failure 500 ''Failed to fetch forecast data''"
  by (simp add: forecastHandler_found [OF _ offline_station(1,3)] forecastForStation_def
      offline_station(6))

text \<open>
  C1, as the claim states it, fails: the route knows two tags, \<open>"xml"\<close> and \<open>"station"\<close>.
  With no feed on disk and every channel fetch failing, a week request is answered
  with the seven synthetic days under \<open>source = "station"\<close>, not \<open>"synthetic"\<close>; with a
  feed item for the nearest city it is answered with the item's row under
  \<open>source = "xml"\<close>, not \<open>"feed"\<close>; a request for a station that is not in the list is
  answered with 404 and no tag; and a request for a listed station that has no
  location is answered with 500 and no tag.
\<close>

theorem forecast_source_tag_counterexample:
  "forecastHandler offlineEnv (Some ''178'') (Some ''week'') =
     Json \<lparr>b_source = ''station'', b_stationId = ''178'', b_cityId = None, b_cityName = None,
           b_period = Some ''week'', b_dateRange = \<lparr>dr_from = 20495, dr_to = 20501\<rparr>,
           b_forecast =
             Daily (fst (generateFallbackDailyForecast 20495 20501 20 (env_random offlineEnv) 0))\<rparr>
   \<and> forecastHandler feedEnv (Some ''178'') (Some ''week'') =
     Json \<lparr>b_source = ''xml'', b_stationId = ''178'', b_cityId = Some ''telaviv'',
           b_cityName = Some ''Tel Aviv'', b_period = Some ''week'',
           b_dateRange = \<lparr>dr_from = 20495, dr_to = 20501\<rparr>,
           b_forecast =
             Daily [\<lparr>df_date = ''2026-02-11'', df_tempMin = Some ''15'', df_tempMax = Some ''20'',
                     df_tempCurrent = Some ''18'', df_humidity = Some ''N/A'',
                     df_windSpeed = Some ''N/A'', df_rain = Some ''0.0''\<rparr>]\<rparr>
   \<and> forecastHandler offlineEnv (Some ''999'') (Some ''week'') = Failure 404 ''Station not found''
   \<and> forecastHandler offlineEnv (Some ''43'') (Some ''week'') =
       Failure 500 ''Failed to fetch forecast data''"
  by (simp add: offline_week feed_week unlocated_week)
     (simp add: forecastHandler_def offline_station)

text \<open>
  C1, amended.  Every answer of the forecast route is an error answer without a tag or
  a body tagged \<open>"xml"\<close> or \<open>"station"\<close>.  For a request whose station is found in the
  station list and carries a location: when the feed directory can be read and exists
  and the feed lookup for the nearest city returns at least one item, the response is
  the formatted feed with \<open>source = "xml"\<close>; when the feed directory cannot be read the
  answer is 500; otherwise the response has \<open>source = "station"\<close>, and its forecast is
  the aggregate of the station's observations over the forecast window, or, for a
  period other than \<open>today\<close> whose aggregate has fewer than \<open>min(3, expected)\<close> entries,
  the synthetic forecast.  The tag does not tell synthetic data from observations.
  The untagged answers: 400 for a request without a station id, 500 when the station
  list cannot be had, 404 when the station is not in the list, 500 when the station
  found has no location, 500 when the feed directory cannot be read.
\<close>

theorem forecast_source_tag:
  fixes env :: ForecastEnv
  defines "dateRange \<equiv> getForecastDateRange (env_today env)"
  shows "(stationId \<noteq> [] \<and> env_stations env = Inr stations
          \<and> findStation env stations stationId = Some station
          \<and> st_location station = Some location \<longrightarrow>
           (tryXmlForecast env stationId period (dateRange (periodOrToday period))
               (env_findNearestCity env (latitude location) (longitude location))
              = Inr (Some response)
            \<longrightarrow> forecastHandler env (Some stationId) period = Json response
                \<and> b_source response = ''xml'')
         \<and> ((\<exists>sent. tryXmlForecast env stationId period (dateRange (periodOrToday period))
                       (env_findNearestCity env (latitude location) (longitude location))
                      = Inr (Some sent))
             = (\<exists>dir items. env_downloadDir env = Inr (Some dir) \<and> dir \<noteq> []
                  \<and> env_getCityForecast env
                       (city_id (env_findNearestCity env (latitude location) (longitude location)))
                       dir = Inr (Some items)
                  \<and> items \<noteq> []))
         \<and> (tryXmlForecast env stationId period (dateRange (periodOrToday period))
               (env_findNearestCity env (latitude location) (longitude location)) = Inr None
            \<longrightarrow> forecastHandler env (Some stationId) period =
                  Json \<lparr>b_source = ''station'', b_stationId = stationId, b_cityId = None,
                        b_cityName = None, b_period = period,
                        b_dateRange = dateRange (periodOrToday period),
                        b_forecast =
                          stationForecast env period (dateRange (periodOrToday period))
                            (projr (getStationDataMultiChannel (env_getStationData env)
                                      (env_parseInt env stationId) forecastChannelIds
                                      (dr_from (dateRange (periodOrToday period)))
                                      (dr_to (dateRange (periodOrToday period)))))\<rparr>)
         \<and> (env_downloadDir env = Inl err
            \<longrightarrow> forecastHandler env (Some stationId) period
                  = Failure 500 ''Failed to fetch forecast data''))
       \<and> (stationId \<noteq> [] \<and> env_stations env = Inr stations
            \<and> findStation env stations stationId = Some station
            \<and> st_location station = None \<longrightarrow>
            forecastHandler env (Some stationId) period = Failure 500 ''Failed to fetch forecast data'')
       \<and> stationForecast env period dr chans =
           (if period \<noteq> Some ''today''
               \<and> int (length (aggregateDaily (env_tza env) chans)) < min 3 (expectedDays dr)
            then fst (generateFallbackForecast (periodOrToday period) (dr_from dr) (dr_to dr) 20
                        (env_random env) 0)
            else if period = Some ''today'' then Hourly (aggregateHourly (env_tza env) chans)
            else Daily (aggregateDaily (env_tza env) chans))
       \<and> forecastHandler env None period = Failure 400 ''Station ID is required''
       \<and> forecastHandler env (Some []) period = Failure 400 ''Station ID is required''
       \<and> (stationId \<noteq> [] \<and> env_stations env = Inl err \<longrightarrow>
            forecastHandler env (Some stationId) period = Failure 500 ''Failed to fetch forecast data'')
       \<and> (stationId \<noteq> [] \<and> env_stations env = Inr stations
            \<and> findStation env stations stationId = None \<longrightarrow>
            forecastHandler env (Some stationId) period = Failure 404 ''Station not found'')
       \<and> ((\<exists>body. forecastHandler env query period = Json body
               \<and> (b_source body = ''xml'' \<or> b_source body = ''station''))
          \<or> forecastHandler env query period = Failure 400 ''Station ID is required''
          \<or> forecastHandler env query period = Failure 404 ''Station not found''
          \<or> forecastHandler env query period = Failure 500 ''Failed to fetch forecast data'')"
proof -
  let ?city = "env_findNearestCity env (latitude location) (longitude location)"
  let ?x = "tryXmlForecast env stationId period (dateRange (periodOrToday period)) ?city"
  let ?body = "\<lparr>b_source = ''station'', b_stationId = stationId, b_cityId = None,
                 b_cityName = None, b_period = period,
                 b_dateRange = dateRange (periodOrToday period),
                 b_forecast =
                   stationForecast env period (dateRange (periodOrToday period))
                     (projr (getStationDataMultiChannel (env_getStationData env)
                               (env_parseInt env stationId) forecastChannelIds
                               (dr_from (dateRange (periodOrToday period)))
                               (dr_to (dateRange (periodOrToday period)))))\<rparr>"
  have hit: "(\<exists>sent. ?x = Inr (Some sent))
             = (\<exists>dir items. env_downloadDir env = Inr (Some dir) \<and> dir \<noteq> []
                  \<and> env_getCityForecast env (city_id ?city) dir = Inr (Some items)
                  \<and> items \<noteq> [])"
    by (rule tryXmlForecast_hit_iff)
  have found: "stationId \<noteq> [] \<and> env_stations env = Inr stations
          \<and> findStation env stations stationId = Some station
          \<and> st_location station = Some location \<longrightarrow>
           (?x = Inr (Some response)
            \<longrightarrow> forecastHandler env (Some stationId) period = Json response
                \<and> b_source response = ''xml'')
         \<and> ((\<exists>sent. ?x = Inr (Some sent))
             = (\<exists>dir items. env_downloadDir env = Inr (Some dir) \<and> dir \<noteq> []
                  \<and> env_getCityForecast env (city_id ?city) dir = Inr (Some items)
                  \<and> items \<noteq> []))
         \<and> (?x = Inr None \<longrightarrow> forecastHandler env (Some stationId) period = Json ?body)
         \<and> (env_downloadDir env = Inl err
            \<longrightarrow> forecastHandler env (Some stationId) period
                  = Failure 500 ''Failed to fetch forecast data'')"
  proof
    assume "stationId \<noteq> [] \<and> env_stations env = Inr stations
          \<and> findStation env stations stationId = Some station
          \<and> st_location station = Some location"
    then have sid: "stationId \<noteq> []" and st: "env_stations env = Inr stations"
      and fnd: "findStation env stations stationId = Some station"
      and loc: "st_location station = Some location"
      by simp_all
    note h = forecastHandler_resolved [OF sid st fnd loc, of period]
    have a: "?x = Inr (Some response)
            \<longrightarrow> forecastHandler env (Some stationId) period = Json response
                \<and> b_source response = ''xml''"
      using h tryXmlForecast_source [of env stationId period _ _ response]
      by (auto simp: dateRange_def)
    have b: "?x = Inr None \<longrightarrow> forecastHandler env (Some stationId) period = Json ?body"
      using h by (simp add: dateRange_def)
    have c: "env_downloadDir env = Inl err
            \<longrightarrow> forecastHandler env (Some stationId) period
                  = Failure 500 ''Failed to fetch forecast data''"
    proof
      assume "env_downloadDir env = Inl err"
      then have "?x = Inl err"
        by (simp add: tryXmlForecast_throws_iff)
      then show "forecastHandler env (Some stationId) period
                  = Failure 500 ''Failed to fetch forecast data''"
        using h by (simp add: dateRange_def)
    qed
    from a hit b c
    show "(?x = Inr (Some response)
            \<longrightarrow> forecastHandler env (Some stationId) period = Json response
                \<and> b_source response = ''xml'')
         \<and> ((\<exists>sent. ?x = Inr (Some sent))
             = (\<exists>dir items. env_downloadDir env = Inr (Some dir) \<and> dir \<noteq> []
                  \<and> env_getCityForecast env (city_id ?city) dir = Inr (Some items)
                  \<and> items \<noteq> []))
         \<and> (?x = Inr None \<longrightarrow> forecastHandler env (Some stationId) period = Json ?body)
         \<and> (env_downloadDir env = Inl err
            \<longrightarrow> forecastHandler env (Some stationId) period
                  = Failure 500 ''Failed to fetch forecast data'')"
      by (intro conjI)
  qed
  have unlocated: "stationId \<noteq> [] \<and> env_stations env = Inr stations
            \<and> findStation env stations stationId = Some station
            \<and> st_location station = None \<longrightarrow>
            forecastHandler env (Some stationId) period = Failure 500 ''Failed to fetch forecast data''"
    by (simp add: forecastHandler_def forecastForStation_def)
  have c: "stationForecast env period dr chans =
           (if period \<noteq> Some ''today''
               \<and> int (length (aggregateDaily (env_tza env) chans)) < min 3 (expectedDays dr)
            then fst (generateFallbackForecast (periodOrToday period) (dr_from dr) (dr_to dr) 20
                        (env_random env) 0)
            else if period = Some ''today'' then Hourly (aggregateHourly (env_tza env) chans)
            else Daily (aggregateDaily (env_tza env) chans))"
    by (simp add: stationForecast_def forecastLength_def)
  have e1: "forecastHandler env None period = Failure 400 ''Station ID is required''"
    and e2: "forecastHandler env (Some []) period = Failure 400 ''Station ID is required''"
    and e3: "stationId \<noteq> [] \<and> env_stations env = Inl err \<longrightarrow>
            forecastHandler env (Some stationId) period = Failure 500 ''Failed to fetch forecast data''"
    and e4: "stationId \<noteq> [] \<and> env_stations env = Inr stations
            \<and> findStation env stations stationId = None \<longrightarrow>
            forecastHandler env (Some stationId) period = Failure 404 ''Station not found''"
    by (simp_all add: forecastHandler_def)
  have every: "(\<exists>body. forecastHandler env query period = Json body
               \<and> (b_source body = ''xml'' \<or> b_source body = ''station''))
          \<or> forecastHandler env query period = Failure 400 ''Station ID is required''
          \<or> forecastHandler env query period = Failure 404 ''Station not found''
          \<or> forecastHandler env query period = Failure 500 ''Failed to fetch forecast data''"
    by (rule forecastHandler_responses)
  from found unlocated c e1 e2 e3 e4 every show ?thesis
    by (intro conjI)
qed

theorem forecast_source_tag_witness:
  "forecastHandler feedEnv (Some ''178'') (Some ''week'') =
     Json \<lparr>b_source = ''xml'', b_stationId = ''178'', b_cityId = Some ''telaviv'',
           b_cityName = Some ''Tel Aviv'', b_period = Some ''week'',
           b_dateRange = \<lparr>dr_from = 20495, dr_to = 20501\<rparr>,
           b_forecast =
             Daily [\<lparr>df_date = ''2026-02-11'', df_tempMin = Some ''15'', df_tempMax = Some ''20'',
                     df_tempCurrent = Some ''18'', df_humidity = Some ''N/A'',
                     df_windSpeed = Some ''N/A'', df_rain = Some ''0.0''\<rparr>]\<rparr>
   \<and> forecastHandler observedEnv (Some ''178'') (Some ''week'') =
       Json \<lparr>b_source = ''station'', b_stationId = ''178'', b_cityId = None, b_cityName = None,
             b_period = Some ''week'', b_dateRange = \<lparr>dr_from = 20495, dr_to = 20501\<rparr>,
             b_forecast =
               Daily [\<lparr>df_date = ''2026-02-11'', df_tempMin = Some ''14.0'',
                       df_tempMax = Some ''14.0'', df_tempCurrent = Some ''14.0'',
                       df_humidity = None, df_windSpeed = None, df_rain = None\<rparr>,
                      \<lparr>df_date = ''2026-02-12'', df_tempMin = Some ''15.0'',
                       df_tempMax = Some ''15.0'', df_tempCurrent = Some ''15.0'',
                       df_humidity = None, df_windSpeed = None, df_rain = None\<rparr>,
                      \<lparr>df_date = ''2026-02-13'', df_tempMin = Some ''16.0'',
                       df_tempMax = Some ''16.0'', df_tempCurrent = Some ''16.0'',
                       df_humidity = None, df_windSpeed = None, df_rain = None\<rparr>]\<rparr>
   \<and> forecastHandler offlineEnv (Some ''43'') (Some ''week'') =
       Failure 500 ''Failed to fetch forecast data''
   \<and> forecastHandler unreadableEnv (Some ''178'') (Some ''week'') =
       Failure 500 ''Failed to fetch forecast data''"
proof -
  have dr: "getForecastDateRange 20495 ''week'' = \<lparr>dr_from = 20495, dr_to = 20501\<rparr>"
    by (simp add: getForecastDateRange_def)
  have u: "env_stations unreadableEnv = Inr (Some [telAvivCoast, unlocatedStation])"
    "findStation unreadableEnv (Some [telAvivCoast, unlocatedStation]) ''178'' = Some telAvivCoast"
    "env_downloadDir unreadableEnv = Inl (Error ''EACCES: permission denied'')"
    by (simp_all add: unreadableEnv_def offlineEnv_def findStation_def telAvivCoast_def
        unlocatedStation_def)
  have observed: "forecastHandler observedEnv (Some ''178'') (Some ''week'') =
       Json \<lparr>b_source = ''station'', b_stationId = ''178'', b_cityId = None, b_cityName = None,
             b_period = Some ''week'', b_dateRange = \<lparr>dr_from = 20495, dr_to = 20501\<rparr>,
             b_forecast =
               Daily [\<lparr>df_date = ''2026-02-11'', df_tempMin = Some ''14.0'',
                       df_tempMax = Some ''14.0'', df_tempCurrent = Some ''14.0'',
                       df_humidity = None, df_windSpeed = None, df_rain = None\<rparr>,
                      \<lparr>df_date = ''2026-02-12'', df_tempMin = Some ''15.0'',
                       df_tempMax = Some ''15.0'', df_tempCurrent = Some ''15.0'',
                       df_humidity = None, df_windSpeed = None, df_rain = None\<rparr>,
                      \<lparr>df_date = ''2026-02-13'', df_tempMin = Some ''16.0'',
                       df_tempMax = Some ''16.0'', df_tempCurrent = Some ''16.0'',
                       df_humidity = None, df_windSpeed = None, df_rain = None\<rparr>]\<rparr>"
    using forecast_source_tag [where env = observedEnv and stationId = "''178''"
      and stations = "Some [telAvivCoast, unlocatedStation]" and station = telAvivCoast
      and location = "\<lparr>latitude = 32.058, longitude = 34.7588\<rparr>"
      and period = "Some ''week''"
      and dr = "\<lparr>dr_from = 20495, dr_to = 20501\<rparr>" and chans = "[mkChannel 7 observedReadings]"]
    by (simp add: observed_station offline_station(5) observed_channels observed_aggregate
        expectedDays_eq dr periodOrToday_def)
  have unlocated: "forecastHandler offlineEnv (Some ''43'') (Some ''week'') =
       Failure 500 ''Failed to fetch forecast data''"
    using forecast_source_tag [where env = offlineEnv and stationId = "''43''"
      and stations = "Some [telAvivCoast, unlocatedStation]" and station = unlocatedStation
      and period = "Some ''week''"]
    by (simp add: offline_station)
  have unreadable: "forecastHandler unreadableEnv (Some ''178'') (Some ''week'') =
       Failure 500 ''Failed to fetch forecast data''"
    using forecast_source_tag [where env = unreadableEnv and stationId = "''178''"
      and stations = "Some [telAvivCoast, unlocatedStation]" and station = telAvivCoast
      and location = "\<lparr>latitude = 32.058, longitude = 34.7588\<rparr>"
      and err = "Error ''EACCES: permission denied''" and period = "Some ''week''"]
    by (simp add: u offline_station(5))
  from feed_week observed unlocated unreadable show ?thesis
    by (intro conjI)
qed

lemma week_dates:
  "isoDate (20495 * msPerDay) = ''2026-02-11''"
  "isoDate (20496 * msPerDay) = ''2026-02-12''"
  "isoDate (20497 * msPerDay) = ''2026-02-13''"
  "isoDate (20498 * msPerDay) = ''2026-02-14''"
  "isoDate (20499 * msPerDay) = ''2026-02-15''"
  "isoDate (20500 * msPerDay) = ''2026-02-16''"
  "isoDate (20501 * msPerDay) = ''2026-02-17''"
  by code_simp+

text \<open>
  C2.  For a forecast request with a period other than \<open>today\<close> (\<open>week\<close>, \<open>month\<close>) whose
  station is found and carries a location and whose feed lookup misses: \<open>expected\<close> is
  the number of days from the first to the last day of the window, and if the daily
  aggregate of the observations has fewer than \<open>min(3, expected)\<close> entries, the response
  carries the output of the synthetic daily generator for the window.  That output has
  one entry for each day of the window, dated with that day, in order, each with
  \<open>tempMin\<close> and \<open>tempMax\<close> present; a window of seven days gives exactly seven entries,
  and the window of the period \<open>week\<close> is one.
\<close>

theorem insufficient_coverage_synthetic:
  fixes env :: ForecastEnv
  defines "dateRange \<equiv> getForecastDateRange (env_today env)"
    and "synthetic \<equiv> (\<lambda>dr. fst (generateFallbackDailyForecast (dr_from dr) (dr_to dr) 20
                                    (env_random env) 0))"
  assumes sid: "stationId \<noteq> []"
    and st: "env_stations env = Inr stations"
    and found: "findStation env stations stationId = Some station"
    and loc: "st_location station = Some location"
    and miss: "tryXmlForecast env stationId (Some p) (dateRange p)
                 (env_findNearestCity env (latitude location) (longitude location)) = Inr None"
    and multi: "p \<noteq> ''today''" "p \<noteq> []"
    and few: "int (length (aggregateDaily (env_tza env)
                 (projr (getStationDataMultiChannel (env_getStationData env)
                           (env_parseInt env stationId) forecastChannelIds
                           (dr_from (dateRange p)) (dr_to (dateRange p))))))
              < min 3 (expectedDays (dateRange p))"
  shows "expectedDays (dateRange p) = dr_to (dateRange p) - dr_from (dateRange p) + 1
       \<and> forecastHandler env (Some stationId) (Some p) =
           Json \<lparr>b_source = ''station'', b_stationId = stationId, b_cityId = None,
                 b_cityName = None, b_period = Some p, b_dateRange = dateRange p,
                 b_forecast = Daily (synthetic (dateRange p))\<rparr>
       \<and> int (length (synthetic (dateRange p))) = expectedDays (dateRange p)
       \<and> map df_date (synthetic (dateRange p))
           = map (\<lambda>d. isoDate (d * msPerDay)) [dr_from (dateRange p)..dr_to (dateRange p)]
       \<and> (\<forall>e \<in> set (synthetic (dateRange p)). df_tempMin e \<noteq> None \<and> df_tempMax e \<noteq> None)
       \<and> (dr_to dr = dr_from dr + 6 \<longrightarrow> length (synthetic dr) = 7)
       \<and> (p = ''week'' \<longrightarrow> length (synthetic (dateRange p)) = 7)"
proof -
  have pt: "periodOrToday (Some p) = p"
    using multi by (simp add: periodOrToday_def)
  have ord: "dr_from (dateRange p) \<le> dr_to (dateRange p)"
    by (simp add: dateRange_def getForecastDateRange_def)
  have h: "forecastHandler env (Some stationId) (Some p) =
           Json \<lparr>b_source = ''station'', b_stationId = stationId, b_cityId = None,
                 b_cityName = None, b_period = Some p, b_dateRange = dateRange p,
                 b_forecast = Daily (synthetic (dateRange p))\<rparr>"
    using miss few multi
    by (simp add: forecastHandler_resolved [OF sid st found loc] pt dateRange_def [symmetric]
        stationForecast_def forecastLength_def generateFallbackForecast_def synthetic_def)
  have len: "int (length (synthetic (dateRange p))) = expectedDays (dateRange p)"
    using ord by (simp add: synthetic_def generateFallbackDailyForecast_length expectedDays_eq)
  have dates: "map df_date (synthetic (dateRange p))
           = map (\<lambda>d. isoDate (d * msPerDay)) [dr_from (dateRange p)..dr_to (dateRange p)]"
    by (simp add: synthetic_def generateFallbackDailyForecast_dates)
  have temps: "\<forall>e \<in> set (synthetic (dateRange p)). df_tempMin e \<noteq> None \<and> df_tempMax e \<noteq> None"
    unfolding synthetic_def by (rule generateFallbackDailyForecast_temps)
  have seven: "dr_to dr = dr_from dr + 6 \<longrightarrow> length (synthetic dr) = 7"
    by (simp add: synthetic_def generateFallbackDailyForecast_length)
  have week: "p = ''week'' \<longrightarrow> length (synthetic (dateRange p)) = 7"
    by (simp add: synthetic_def generateFallbackDailyForecast_length dateRange_def
        getForecastDateRange_def)
  from expectedDays_eq h len dates temps seven week show ?thesis
    by blast
qed

theorem insufficient_coverage_synthetic_witness:
  "forecastHandler offlineEnv (Some ''178'') (Some ''week'') =
     Json \<lparr>b_source = ''station'', b_stationId = ''178'', b_cityId = None, b_cityName = None,
           b_period = Some ''week'', b_dateRange = \<lparr>dr_from = 20495, dr_to = 20501\<rparr>,
           b_forecast =
             Daily (fst (generateFallbackDailyForecast 20495 20501 20 (env_random offlineEnv) 0))\<rparr>
   \<and> length (fst (generateFallbackDailyForecast 20495 20501 20 (env_random offlineEnv) 0)) = 7
   \<and> map df_date (fst (generateFallbackDailyForecast 20495 20501 20 (env_random offlineEnv) 0))
        = [''2026-02-11'', ''2026-02-12'', ''2026-02-13'', ''2026-02-14'', ''2026-02-15'',
           ''2026-02-16'', ''2026-02-17'']"
proof -
  note s = offline_station(1) and f = offline_station(2) and l = offline_station(5)
    and td = offline_station(7)
  have x: "tryXmlForecast offlineEnv ''178'' (Some ''week'') d c = Inr None" for d c
    by (simp add: offlineEnv_def tryXmlForecast_def)
  have dr: "getForecastDateRange 20495 ''week'' = \<lparr>dr_from = 20495, dr_to = 20501\<rparr>"
    by (simp add: getForecastDateRange_def)
  have n: "''178'' \<noteq> []" and m: "''week'' \<noteq> ''today''" "''week'' \<noteq> []"
    by simp_all
  have few: "int (length (aggregateDaily (env_tza offlineEnv)
                 (projr (getStationDataMultiChannel (env_getStationData offlineEnv)
                           (env_parseInt offlineEnv ''178'') forecastChannelIds
                           (dr_from (getForecastDateRange (env_today offlineEnv) ''week''))
                           (dr_to (getForecastDateRange (env_today offlineEnv) ''week''))))))
              < min 3 (expectedDays (getForecastDateRange (env_today offlineEnv) ''week''))"
    by (simp add: offline_channels aggregateDaily_Nil expectedDays_eq td dr)
  from insufficient_coverage_synthetic [OF n s f l x m few,
      where dr = "\<lparr>dr_from = 20495, dr_to = 20501\<rparr>"]
  show ?thesis
    by (simp add: td dr week_dates)
qed

section \<open>Date-range conventions\<close>

lemma forecastHandler_dateRange:
  "forecastHandler env q period = Json body \<Longrightarrow>
   b_dateRange body = getForecastDateRange (env_today env) (periodOrToday period)"
  by (auto simp: forecastHandler_def forecastForStation_def tryXmlForecast_def
      formatForecastResponse_def getStationDataMultiChannel_eq
      split: option.splits if_splits sum.splits)

lemma stationDetailHandler_dateRange:
  "stationDetailHandler env q period = DetailJson body \<Longrightarrow>
   sdb_dateRange body = getDateRange (env_today env) (periodOrToday period)"
  by (auto simp: stationDetailHandler_def Let_def getStationDataMultiChannel_eq
      split: option.splits if_splits)

lemma stationDetailHandler_resolved:
  "stationId \<noteq> [] \<Longrightarrow>
   stationDetailHandler env (Some stationId) period =
     DetailJson
       \<lparr>sdb_stationId = env_parseInt env stationId,
        sdb_dateRange = getDateRange (env_today env) (periodOrToday period),
        sdb_channels =
          projr (getStationDataMultiChannel (env_getStationData env)
                   (env_parseInt env stationId) forecastChannelIds
                   (dr_from (getDateRange (env_today env) (periodOrToday period)))
                   (dr_to (getDateRange (env_today env) (periodOrToday period)))),
        sdb_period = period\<rparr>"
  by (simp add: stationDetailHandler_def Let_def getStationDataMultiChannel_eq)

text \<open>
  C8.  The date-range utility of the utils module takes a period and computes both
  windows.  \<open>getDateRange\<close> is backward-looking: it ends today and starts 2, 7 or 30 days
  before (periods \<open>today\<close>, \<open>week\<close>, \<open>month\<close>; any other period as \<open>today\<close>).
  \<open>getForecastDateRange\<close> is forward-looking: it starts today and ends 1, 6 or 29 days
  after, a window of 2, 7 or 30 days.  The station-detail route, which serves raw
  observations, asks the upstream for the backward window and answers with what the
  upstream returned for it.  The forecast route uses the forward window throughout:
  a feed response carries it; on a feed miss the observations are fetched for it, the
  expected number of days is counted on it, the synthetic generator is run on it, and
  the response carries it.
\<close>

theorem date_range_conventions:
  fixes env :: ForecastEnv
  defines "backward \<equiv> (\<lambda>p. getDateRange (env_today env) (periodOrToday p))"
    and "forward \<equiv> (\<lambda>p. getForecastDateRange (env_today env) (periodOrToday p))"
  shows
  "dr_to (getDateRange today period) = today
   \<and> dr_from (getDateRange today period)
       = today - (if period = ''week'' then 7 else if period = ''month'' then 30 else 2)
   \<and> dr_from (getForecastDateRange today period) = today
   \<and> dr_to (getForecastDateRange today period)
       = today + (if period = ''week'' then 6 else if period = ''month'' then 29 else 1)
   \<and> (stationDetailHandler env q p = DetailJson dbody \<longrightarrow>
        sdb_dateRange dbody = getDateRange (env_today env) (periodOrToday p)
        \<and> dr_to (sdb_dateRange dbody) = env_today env)
   \<and> (forecastHandler env q p = Json body \<longrightarrow>
        b_dateRange body = getForecastDateRange (env_today env) (periodOrToday p)
        \<and> dr_from (b_dateRange body) = env_today env)
   \<and> (stationId \<noteq> [] \<longrightarrow>
        stationDetailHandler env (Some stationId) p =
          DetailJson
            \<lparr>sdb_stationId = env_parseInt env stationId,
             sdb_dateRange = backward p,
             sdb_channels =
               projr (getStationDataMultiChannel (env_getStationData env)
                        (env_parseInt env stationId) forecastChannelIds
                        (dr_from (backward p)) (dr_to (backward p))),
             sdb_period = p\<rparr>)
   \<and> (stationId \<noteq> [] \<and> env_stations env = Inr stations
        \<and> findStation env stations stationId = Some station
        \<and> st_location station = Some location \<longrightarrow>
         (tryXmlForecast env stationId p (forward p)
              (env_findNearestCity env (latitude location) (longitude location))
             = Inr (Some response)
          \<longrightarrow> forecastHandler env (Some stationId) p = Json response
              \<and> b_dateRange response = forward p)
       \<and> (tryXmlForecast env stationId p (forward p)
              (env_findNearestCity env (latitude location) (longitude location)) = Inr None
          \<longrightarrow> forecastHandler env (Some stationId) p =
                Json \<lparr>b_source = ''station'', b_stationId = stationId, b_cityId = None,
                      b_cityName = None, b_period = p, b_dateRange = forward p,
                      b_forecast =
                        stationForecast env p (forward p)
                          (projr (getStationDataMultiChannel (env_getStationData env)
                                    (env_parseInt env stationId) forecastChannelIds
                                    (dr_from (forward p)) (dr_to (forward p))))\<rparr>))
   \<and> stationForecast env p window chans =
       (if p \<noteq> Some ''today''
           \<and> int (length (aggregateDaily (env_tza env) chans))
               < min 3 (dr_to window - dr_from window + 1)
        then fst (generateFallbackForecast (periodOrToday p) (dr_from window) (dr_to window) 20
                    (env_random env) 0)
        else if p = Some ''today'' then Hourly (aggregateHourly (env_tza env) chans)
        else Daily (aggregateDaily (env_tza env) chans))"
proof -
  have a: "dr_to (getDateRange today period) = today
     \<and> dr_from (getDateRange today period)
         = today - (if period = ''week'' then 7 else if period = ''month'' then 30 else 2)"
    by (simp add: getDateRange_def)
  have b: "dr_from (getForecastDateRange today period) = today
     \<and> dr_to (getForecastDateRange today period)
         = today + (if period = ''week'' then 6 else if period = ''month'' then 29 else 1)"
    by (simp add: getForecastDateRange_def)
  have c: "stationDetailHandler env q p = DetailJson dbody \<longrightarrow>
        sdb_dateRange dbody = getDateRange (env_today env) (periodOrToday p)
        \<and> dr_to (sdb_dateRange dbody) = env_today env"
    by (auto dest!: stationDetailHandler_dateRange simp: getDateRange_def)
  have d: "forecastHandler env q p = Json body \<longrightarrow>
        b_dateRange body = getForecastDateRange (env_today env) (periodOrToday p)
        \<and> dr_from (b_dateRange body) = env_today env"
    by (auto dest!: forecastHandler_dateRange simp: getForecastDateRange_def)
  have e: "stationId \<noteq> [] \<longrightarrow>
        stationDetailHandler env (Some stationId) p =
          DetailJson
            \<lparr>sdb_stationId = env_parseInt env stationId,
             sdb_dateRange = backward p,
             sdb_channels =
               projr (getStationDataMultiChannel (env_getStationData env)
                        (env_parseInt env stationId) forecastChannelIds
                        (dr_from (backward p)) (dr_to (backward p))),
             sdb_period = p\<rparr>"
    by (simp add: stationDetailHandler_resolved backward_def)
  have f: "stationId \<noteq> [] \<and> env_stations env = Inr stations
        \<and> findStation env stations stationId = Some station
        \<and> st_location station = Some location \<longrightarrow>
         (tryXmlForecast env stationId p (forward p)
              (env_findNearestCity env (latitude location) (longitude location))
             = Inr (Some response)
          \<longrightarrow> forecastHandler env (Some stationId) p = Json response
              \<and> b_dateRange response = forward p)
       \<and> (tryXmlForecast env stationId p (forward p)
              (env_findNearestCity env (latitude location) (longitude location)) = Inr None
          \<longrightarrow> forecastHandler env (Some stationId) p =
                Json \<lparr>b_source = ''station'', b_stationId = stationId, b_cityId = None,
                      b_cityName = None, b_period = p, b_dateRange = forward p,
                      b_forecast =
                        stationForecast env p (forward p)
                          (projr (getStationDataMultiChannel (env_getStationData env)
                                    (env_parseInt env stationId) forecastChannelIds
                                    (dr_from (forward p)) (dr_to (forward p))))\<rparr>)"
  proof
    assume "stationId \<noteq> [] \<and> env_stations env = Inr stations
        \<and> findStation env stations stationId = Some station
        \<and> st_location station = Some location"
    then have sid: "stationId \<noteq> []" and st: "env_stations env = Inr stations"
      and fnd: "findStation env stations stationId = Some station"
      and loc: "st_location station = Some location"
      by simp_all
    note h = forecastHandler_resolved [OF sid st fnd loc, of p]
    have hit: "tryXmlForecast env stationId p (forward p)
              (env_findNearestCity env (latitude location) (longitude location))
             = Inr (Some response)
          \<longrightarrow> forecastHandler env (Some stationId) p = Json response
              \<and> b_dateRange response = forward p"
    proof
      assume x: "tryXmlForecast env stationId p (forward p)
              (env_findNearestCity env (latitude location) (longitude location))
             = Inr (Some response)"
      then have j: "forecastHandler env (Some stationId) p = Json response"
        using h by (simp add: forward_def)
      from forecastHandler_dateRange [OF j] j
      show "forecastHandler env (Some stationId) p = Json response
              \<and> b_dateRange response = forward p"
        by (simp add: forward_def)
    qed
    have miss: "tryXmlForecast env stationId p (forward p)
              (env_findNearestCity env (latitude location) (longitude location)) = Inr None
          \<longrightarrow> forecastHandler env (Some stationId) p =
                Json \<lparr>b_source = ''station'', b_stationId = stationId, b_cityId = None,
                      b_cityName = None, b_period = p, b_dateRange = forward p,
                      b_forecast =
                        stationForecast env p (forward p)
                          (projr (getStationDataMultiChannel (env_getStationData env)
                                    (env_parseInt env stationId) forecastChannelIds
                                    (dr_from (forward p)) (dr_to (forward p))))\<rparr>"
      using h by (simp add: forward_def)
    from hit miss
    show "(tryXmlForecast env stationId p (forward p)
              (env_findNearestCity env (latitude location) (longitude location))
             = Inr (Some response)
          \<longrightarrow> forecastHandler env (Some stationId) p = Json response
              \<and> b_dateRange response = forward p)
       \<and> (tryXmlForecast env stationId p (forward p)
              (env_findNearestCity env (latitude location) (longitude location)) = Inr None
          \<longrightarrow> forecastHandler env (Some stationId) p =
                Json \<lparr>b_source = ''station'', b_stationId = stationId, b_cityId = None,
                      b_cityName = None, b_period = p, b_dateRange = forward p,
                      b_forecast =
                        stationForecast env p (forward p)
                          (projr (getStationDataMultiChannel (env_getStationData env)
                                    (env_parseInt env stationId) forecastChannelIds
                                    (dr_from (forward p)) (dr_to (forward p))))\<rparr>)"
      by (intro conjI)
  qed
  have g: "stationForecast env p window chans =
       (if p \<noteq> Some ''today''
           \<and> int (length (aggregateDaily (env_tza env) chans))
               < min 3 (dr_to window - dr_from window + 1)
        then fst (generateFallbackForecast (periodOrToday p) (dr_from window) (dr_to window) 20
                    (env_random env) 0)
        else if p = Some ''today'' then Hourly (aggregateHourly (env_tza env) chans)
        else Daily (aggregateDaily (env_tza env) chans))"
    by (simp add: stationForecast_def forecastLength_def expectedDays_eq)
  from a [THEN conjunct1] a [THEN conjunct2] b [THEN conjunct1] b [THEN conjunct2] c d e f g
  show ?thesis
    by (intro conjI)
qed

theorem date_range_conventions_witness:
  "getDateRange 20495 ''week'' = \<lparr>dr_from = 20488, dr_to = 20495\<rparr>
   \<and> getForecastDateRange 20495 ''week'' = \<lparr>dr_from = 20495, dr_to = 20501\<rparr>
   \<and> stationDetailHandler observedEnv (Some ''178'') (Some ''week'')
        = DetailJson \<lparr>sdb_stationId = Some 178, sdb_dateRange = \<lparr>dr_from = 20488, dr_to = 20495\<rparr>,
                      sdb_channels = [mkChannel 7 pastReadings], sdb_period = Some ''week''\<rparr>
   \<and> forecastHandler observedEnv (Some ''178'') (Some ''week'') =
       Json \<lparr>b_source = ''station'', b_stationId = ''178'', b_cityId = None, b_cityName = None,
             b_period = Some ''week'', b_dateRange = \<lparr>dr_from = 20495, dr_to = 20501\<rparr>,
             b_forecast =
               Daily [\<lparr>df_date = ''2026-02-11'', df_tempMin = Some ''14.0'',
                       df_tempMax = Some ''14.0'', df_tempCurrent = Some ''14.0'',
                       df_humidity = None, df_windSpeed = None, df_rain = None\<rparr>,
                      \<lparr>df_date = ''2026-02-12'', df_tempMin = Some ''15.0'',
                       df_tempMax = Some ''15.0'', df_tempCurrent = Some ''15.0'',
                       df_humidity = None, df_windSpeed = None, df_rain = None\<rparr>,
                      \<lparr>df_date = ''2026-02-13'', df_tempMin = Some ''16.0'',
                       df_tempMax = Some ''16.0'', df_tempCurrent = Some ''16.0'',
                       df_humidity = None, df_windSpeed = None, df_rain = None\<rparr>]\<rparr>
   \<and> forecastHandler offlineEnv (Some ''178'') (Some ''week'') =
       Json \<lparr>b_source = ''station'', b_stationId = ''178'', b_cityId = None, b_cityName = None,
             b_period = Some ''week'', b_dateRange = \<lparr>dr_from = 20495, dr_to = 20501\<rparr>,
             b_forecast =
               Daily (fst (generateFallbackDailyForecast 20495 20501 20
                             (env_random offlineEnv) 0))\<rparr>"
proof -
  have bw: "getDateRange 20495 ''week'' = \<lparr>dr_from = 20488, dr_to = 20495\<rparr>"
    by (simp add: getDateRange_def)
  have fw: "getForecastDateRange 20495 ''week'' = \<lparr>dr_from = 20495, dr_to = 20501\<rparr>"
    by (simp add: getForecastDateRange_def)
  have x: "tryXmlForecast offlineEnv ''178'' (Some ''week'') d c = Inr None" for d c
    by (simp add: offlineEnv_def tryXmlForecast_def)
  have tz: "env_tza offlineEnv = utc"
    by (simp add: offlineEnv_def)
  have observed: "stationDetailHandler observedEnv (Some ''178'') (Some ''week'')
        = DetailJson \<lparr>sdb_stationId = Some 178, sdb_dateRange = \<lparr>dr_from = 20488, dr_to = 20495\<rparr>,
                      sdb_channels = [mkChannel 7 pastReadings], sdb_period = Some ''week''\<rparr>
     \<and> forecastHandler observedEnv (Some ''178'') (Some ''week'') =
       Json \<lparr>b_source = ''station'', b_stationId = ''178'', b_cityId = None, b_cityName = None,
             b_period = Some ''week'', b_dateRange = \<lparr>dr_from = 20495, dr_to = 20501\<rparr>,
             b_forecast =
               Daily [\<lparr>df_date = ''2026-02-11'', df_tempMin = Some ''14.0'',
                       df_tempMax = Some ''14.0'', df_tempCurrent = Some ''14.0'',
                       df_humidity = None, df_windSpeed = None, df_rain = None\<rparr>,
                      \<lparr>df_date = ''2026-02-12'', df_tempMin = Some ''15.0'',
                       df_tempMax = Some ''15.0'', df_tempCurrent = Some ''15.0'',
                       df_humidity = None, df_windSpeed = None, df_rain = None\<rparr>,
                      \<lparr>df_date = ''2026-02-13'', df_tempMin = Some ''16.0'',
                       df_tempMax = Some ''16.0'', df_tempCurrent = Some ''16.0'',
                       df_humidity = None, df_windSpeed = None, df_rain = None\<rparr>]\<rparr>"
    using date_range_conventions [where env = observedEnv and stationId = "''178''"
      and stations = "Some [telAvivCoast, unlocatedStation]" and station = telAvivCoast
      and location = "\<lparr>latitude = 32.058, longitude = 34.7588\<rparr>"
      and p = "Some ''week''" and window = "\<lparr>dr_from = 20495, dr_to = 20501\<rparr>"
      and chans = "[mkChannel 7 observedReadings]"]
    by (simp add: observed_station offline_station(5) observed_channels observed_past_channels
        observed_aggregate bw fw periodOrToday_def)
  have offline: "forecastHandler offlineEnv (Some ''178'') (Some ''week'') =
       Json \<lparr>b_source = ''station'', b_stationId = ''178'', b_cityId = None, b_cityName = None,
             b_period = Some ''week'', b_dateRange = \<lparr>dr_from = 20495, dr_to = 20501\<rparr>,
             b_forecast =
               Daily (fst (generateFallbackDailyForecast 20495 20501 20
                             (env_random offlineEnv) 0))\<rparr>"
    using date_range_conventions [where env = offlineEnv and stationId = "''178''"
      and stations = "Some [telAvivCoast, unlocatedStation]" and station = telAvivCoast
      and location = "\<lparr>latitude = 32.058, longitude = 34.7588\<rparr>"
      and p = "Some ''week''" and window = "\<lparr>dr_from = 20495, dr_to = 20501\<rparr>"
      and chans = "[]"]
    by (simp add: offline_station x offline_channels aggregateDaily_Nil tz fw periodOrToday_def
        generateFallbackForecast_def)
  from bw fw observed offline show ?thesis
    by (intro conjI) simp_all
qed
end
